theory Spec2Isabelle
  imports Main "HOL-Library.Word" "HOL-Library.Signed_Division" "HOL-Library.Multiset"
begin

section \<open>Go values used by the cluster controller\<close>

text \<open>
  The controller is \<^verbatim>\<open>pkg/controller/cluster/clustercontroller.go\<close>. Go's \<^verbatim>\<open>int\<close> is
  taken at its 64-bit width: arithmetic wraps, comparison is signed, division truncates
  towards zero and panics on a zero divisor. An \<^verbatim>\<open>error\<close> is a message; a run-time panic
  is a value of its own, so that every path of the source that crashes is a branch here.
\<close>

type_synonym goint = "64 word"

datatype error = Error string

datatype panic = DivideByZero | NilDereference

type_synonym Annotations = "string \<rightharpoonup> string"

definition go_div :: "goint \<Rightarrow> goint \<Rightarrow> goint" where
  "go_div a b = word_of_int (sint a sdiv sint b)"

subsection \<open>strconv\<close>

definition digitVal :: "char \<Rightarrow> nat option" where
  "digitVal c =
     (let n = (of_char c :: nat) in if 48 \<le> n \<and> n \<le> 57 then Some (n - 48) else None)"

fun parseDigits :: "nat \<Rightarrow> string \<Rightarrow> nat option" where
  "parseDigits acc [] = Some acc"
| "parseDigits acc (c # cs) =
     (case digitVal c of None \<Rightarrow> None | Some d \<Rightarrow> parseDigits (acc * 10 + d) cs)"

definition parseUnsigned :: "string \<Rightarrow> nat option" where
  "parseUnsigned s = (if s = [] then None else parseDigits 0 s)"

text \<open>
  \<^verbatim>\<open>strconv.Atoi\<close>: an optional sign, then one or more decimal digits, and a range error
  outside the 64-bit signed range.
\<close>

definition Atoi :: "string \<Rightarrow> goint option" where
  "Atoi s =
     (case s of
        [] \<Rightarrow> None
      | c # cs \<Rightarrow>
          if c = CHR ''-'' then
            (case parseUnsigned cs of
               None \<Rightarrow> None
             | Some n \<Rightarrow> if n \<le> 2 ^ 63 then Some (- of_nat n) else None)
          else if c = CHR ''+'' then
            (case parseUnsigned cs of
               None \<Rightarrow> None
             | Some n \<Rightarrow> if n < 2 ^ 63 then Some (of_nat n) else None)
          else
            (case parseUnsigned s of
               None \<Rightarrow> None
             | Some n \<Rightarrow> if n < 2 ^ 63 then Some (of_nat n) else None))"

fun digitsOf :: "nat \<Rightarrow> string" where
  "digitsOf n =
     (if n < 10 then [char_of (48 + n)]
      else digitsOf (n div 10) @ [char_of (48 + n mod 10)])"

declare digitsOf.simps [simp del]

text \<open>\<^verbatim>\<open>strconv.Itoa\<close>: the decimal digits, with a minus sign for a negative value.\<close>

definition Itoa :: "goint \<Rightarrow> string" where
  "Itoa w =
     (if sint w < 0 then CHR ''-'' # digitsOf (nat (- sint w)) else digitsOf (nat (sint w)))"

text \<open>\<^verbatim>\<open>strconv.ParseBool\<close> accepts exactly these twelve spellings.\<close>

definition ParseBool :: "string \<Rightarrow> bool option" where
  "ParseBool s =
     (if s \<in> set [''1'', ''t'', ''T'', ''TRUE'', ''true'', ''True''] then Some True
      else if s \<in> set [''0'', ''f'', ''F'', ''FALSE'', ''false'', ''False''] then Some False
      else None)"

subsection \<open>Annotation keys, lifecycle states and defaults\<close>

text \<open>
  Modelled from the spec: the string constants of package \<^verbatim>\<open>common\<close> (annotation keys and
  lifecycle-state values) are not part of the source at hand. They are given the names
  the specification's data model uses for them; the development only relies on their
  being pairwise distinct.
\<close>

definition NavarkosClusterStateKey :: string where
  "NavarkosClusterStateKey = ''lifecycle-state''"

definition NavarkosClusterCapacityAllocatablePodsKey :: string where
  "NavarkosClusterCapacityAllocatablePodsKey = ''capacity-allocatable-pods''"

definition NavarkosClusterCapacityPodsKey :: string where
  "NavarkosClusterCapacityPodsKey = ''capacity-total-pods''"

definition NavarkosClusterCapacityUsedPodsKey :: string where
  "NavarkosClusterCapacityUsedPodsKey = ''capacity-used-pods''"

definition NavarkosClusterCapacitySystemPodsKey :: string where
  "NavarkosClusterCapacitySystemPodsKey = ''capacity-system-pods''"

definition NavarkosClusterShutdownStartTimeKey :: string where
  "NavarkosClusterShutdownStartTimeKey = ''shutdown-start-time''"

definition NavarkosClusterTimeToLiveBeforeShutdownKey :: string where
  "NavarkosClusterTimeToLiveBeforeShutdownKey = ''time-to-live-seconds''"

definition NavarkosClusterAutoScaleKey :: string where
  "NavarkosClusterAutoScaleKey = ''autoscale-enabled''"

definition NavarkosClusterScaleUpCapacityThresholdKey :: string where
  "NavarkosClusterScaleUpCapacityThresholdKey = ''scale-up-threshold-percent''"

definition NavarkosClusterScaleDownCapacityThresholdKey :: string where
  "NavarkosClusterScaleDownCapacityThresholdKey = ''scale-down-threshold-percent''"

definition NavarkosClusterStateReady :: string where
  "NavarkosClusterStateReady = ''Ready''"

definition NavarkosClusterStateOffline :: string where
  "NavarkosClusterStateOffline = ''Offline''"

definition NavarkosClusterStatePendingShutdown :: string where
  "NavarkosClusterStatePendingShutdown = ''PendingShutdown''"

definition NavarkosClusterStatePendingScaleUp :: string where
  "NavarkosClusterStatePendingScaleUp = ''PendingScaleUp''"

definition NavarkosClusterStatePendingScaleDown :: string where
  "NavarkosClusterStatePendingScaleDown = ''PendingScaleDown''"

text \<open>
  The three numeric defaults of package \<^verbatim>\<open>common\<close> are parameters: their values are
  not in the source at hand, and no result below depends on them.
\<close>

record Defaults =
  NavarkosDefaultClusterTimeToLiveBeforeShutdown :: goint
  NavarkosDefaultClusterScaleUpCapacityThreshold :: goint
  NavarkosClusterScaleDownCapacityThreshold :: goint

text \<open>
  The clock is a parameter as well: the text \<^verbatim>\<open>time.Now().UTC().Format(time.UnixDate)\<close>
  yields, \<^verbatim>\<open>time.Parse(time.UnixDate, s)\<close> (a time as seconds of the epoch, or failure), and
  \<^verbatim>\<open>int(time.Since(t).Seconds())\<close>.
\<close>

record Clock =
  nowUnixDate :: string
  parseUnixDate :: "string \<Rightarrow> int option"
  sinceSeconds :: "int \<Rightarrow> goint"

section \<open>The annotation rules\<close>

text \<open>
  Every rule of the source takes the cluster and reads and writes its annotation map
  only (the name is used for logging); the rules below take and return that map. A read
  of a missing key yields the empty string.
\<close>

definition annotationOrEmpty :: "Annotations \<Rightarrow> string \<Rightarrow> string" where
  "annotationOrEmpty anns k = (case anns k of None \<Rightarrow> [] | Some v \<Rightarrow> v)"

definition getAnnotationIntegerValue :: "Annotations \<Rightarrow> string \<Rightarrow> goint \<Rightarrow> goint" where
  "getAnnotationIntegerValue anns annotationName defaultValue =
     (case anns annotationName of
        None \<Rightarrow> defaultValue
      | Some annotationOriginalValue \<Rightarrow>
          if annotationOriginalValue \<noteq> [] then
            (case Atoi annotationOriginalValue of
               Some annotationConvertedValue \<Rightarrow> annotationConvertedValue
             | None \<Rightarrow> defaultValue)
          else defaultValue)"

definition IsCapacityDataPresent :: "Annotations \<Rightarrow> bool" where
  "IsCapacityDataPresent anns \<longleftrightarrow>
     anns NavarkosClusterCapacityAllocatablePodsKey \<noteq> None \<and>
     anns NavarkosClusterCapacityPodsKey \<noteq> None \<and>
     anns NavarkosClusterCapacityUsedPodsKey \<noteq> None \<and>
     anns NavarkosClusterCapacitySystemPodsKey \<noteq> None"

text \<open>
  A statistics map (\<^verbatim>\<open>map[string]int\<close>) is a list of entries; the nil map is the empty
  list. Both loops over it are insensitive to the order of the entries.
\<close>

type_synonym Stats = "(string \<times> goint) list"

definition isStatsChanged :: "Stats \<Rightarrow> Annotations \<Rightarrow> bool" where
  "isStatsChanged newStats anns =
     list_ex (\<lambda>(metricName, newValue). getAnnotationIntegerValue anns metricName 0 \<noteq> newValue)
       newStats"

definition updateClusterStats :: "Annotations \<Rightarrow> Stats \<Rightarrow> Annotations" where
  "updateClusterStats anns stats =
     fold (\<lambda>(metricName, v) a. a(metricName \<mapsto> Itoa v)) stats anns"

definition markClusterToShutDownIfNoPods :: "Clock \<Rightarrow> Annotations \<Rightarrow> Annotations \<times> bool" where
  "markClusterToShutDownIfNoPods clk anns =
     (let usedPods = getAnnotationIntegerValue anns NavarkosClusterCapacityUsedPodsKey 0;
          usedPodsSystemNS = getAnnotationIntegerValue anns NavarkosClusterCapacitySystemPodsKey 0
      in if usedPods = usedPodsSystemNS then
           (if anns NavarkosClusterShutdownStartTimeKey = None then
              (if annotationOrEmpty anns NavarkosClusterStateKey = NavarkosClusterStateReady then
                 (anns(NavarkosClusterShutdownStartTimeKey \<mapsto> nowUnixDate clk), True)
               else (anns, False))
            else (anns, False))
         else
           (if anns NavarkosClusterShutdownStartTimeKey \<noteq> None then
              (anns(NavarkosClusterShutdownStartTimeKey := None), True)
            else (anns, False)))"

definition shutDownClusterIfTTLExpired ::
  "Clock \<Rightarrow> Defaults \<Rightarrow> Annotations \<Rightarrow> Annotations \<times> bool" where
  "shutDownClusterIfTTLExpired clk cfg anns =
     (case anns NavarkosClusterShutdownStartTimeKey of
        None \<Rightarrow> (anns, False)
      | Some clusterShutdownStartTimeInString \<Rightarrow>
          (case parseUnixDate clk clusterShutdownStartTimeInString of
             None \<Rightarrow> (anns, False)
           | Some clusterShutdownStartTime \<Rightarrow>
               (let clusterTimeToLiveBeforeShutdown =
                      getAnnotationIntegerValue anns NavarkosClusterTimeToLiveBeforeShutdownKey
                        (NavarkosDefaultClusterTimeToLiveBeforeShutdown cfg)
                in if 0 <s clusterTimeToLiveBeforeShutdown \<and>
                      clusterTimeToLiveBeforeShutdown \<le>s sinceSeconds clk clusterShutdownStartTime
                   then
                     ((anns(NavarkosClusterStateKey \<mapsto> NavarkosClusterStatePendingShutdown))
                        (NavarkosClusterShutdownStartTimeKey := None), True)
                   else (anns, False))))"

definition markClusterForScalingIfPodsHitThresholds ::
  "Defaults \<Rightarrow> Annotations \<Rightarrow> panic + (Annotations \<times> bool)" where
  "markClusterForScalingIfPodsHitThresholds cfg anns =
     (let usedPods = getAnnotationIntegerValue anns NavarkosClusterCapacityUsedPodsKey 0;
          usedSysPods = getAnnotationIntegerValue anns NavarkosClusterCapacitySystemPodsKey 0;
          capacityPods = getAnnotationIntegerValue anns NavarkosClusterCapacityPodsKey 0
      in case anns NavarkosClusterAutoScaleKey of
           None \<Rightarrow> Inr (anns, False)
         | Some autoScaleEnabledStr \<Rightarrow>
             if ParseBool autoScaleEnabledStr \<noteq> Some True then Inr (anns, False)
             else if annotationOrEmpty anns NavarkosClusterStateKey = NavarkosClusterStateReady then
               (let scaleUpCapacityThreshold =
                      getAnnotationIntegerValue anns NavarkosClusterScaleUpCapacityThresholdKey
                        (NavarkosDefaultClusterScaleUpCapacityThreshold cfg);
                    scaleDownCapacityThreshold =
                      getAnnotationIntegerValue anns NavarkosClusterScaleDownCapacityThresholdKey
                        (NavarkosClusterScaleDownCapacityThreshold cfg);
                    userPods = usedPods - usedSysPods;
                    userCapacityPods = capacityPods - usedSysPods
                in if userCapacityPods = 0 then Inl DivideByZero
                   else
                     (let usedOverCapacity = go_div (userPods * 100) userCapacityPods
                      in if scaleUpCapacityThreshold \<le>s usedOverCapacity then
                           Inr (anns(NavarkosClusterStateKey \<mapsto> NavarkosClusterStatePendingScaleUp),
                                True)
                         else if usedOverCapacity \<le>s scaleDownCapacityThreshold then
                           Inr (anns(NavarkosClusterStateKey \<mapsto> NavarkosClusterStatePendingScaleDown),
                                True)
                         else Inr (anns, False)))
             else Inr (anns, False))"

text \<open>
  The decision block of \<^verbatim>\<open>UpdateClusterStatus\<close>: the flag \<^verbatim>\<open>updateCluster\<close> starts false;
  with capacity data missing the statistics are written and nothing else is called; in
  the other branch each rule stands to the right of Go's short-circuit \<^verbatim>\<open>||\<close>, so it is
  called only while the flag is still false.
\<close>

definition decideAnnotations ::
  "Clock \<Rightarrow> Defaults \<Rightarrow> Stats \<Rightarrow> Annotations \<Rightarrow> panic + (Annotations \<times> bool)" where
  "decideAnnotations clk cfg newStats anns =
     (if \<not> IsCapacityDataPresent anns then Inr (updateClusterStats anns newStats, True)
      else
        (let (a1, u1) = (if isStatsChanged newStats anns
                         then (updateClusterStats anns newStats, True) else (anns, False));
             (a2, u2) = (if u1 then (a1, True) else markClusterToShutDownIfNoPods clk a1);
             (a3, u3) = (if u2 then (a2, True) else shutDownClusterIfTTLExpired clk cfg a2)
         in if u3 then Inr (a3, True) else markClusterForScalingIfPodsHitThresholds cfg a3))"

section \<open>Clusters, clients and the controller\<close>

datatype ClusterConditionType = ClusterReady | ClusterOffline

datatype ConditionStatus = ConditionTrue | ConditionFalse | ConditionUnknown

record ClusterCondition =
  condType :: ClusterConditionType
  condStatus :: ConditionStatus

text \<open>
  Of a \<^verbatim>\<open>v1beta1.Cluster\<close> the controller reads the name, the deletion time stamp, the
  annotations and the conditions of the status. A nil annotation map reads like the
  empty one, and the pass replaces it by an empty map before it writes.
\<close>

record Cluster =
  Name :: string
  DeletionTimestamp :: "int option"
  Annotations :: Annotations
  Conditions :: "ClusterCondition list"

fun readyAmong :: "ClusterCondition list \<Rightarrow> bool" where
  "readyAmong [] = False"
| "readyAmong (condition # rest) =
     (if condType condition = ClusterReady then
        (if condStatus condition = ConditionTrue then True else readyAmong rest)
      else readyAmong rest)"

definition isClusterReady :: "Cluster \<Rightarrow> bool" where
  "isClusterReady cluster = readyAmong (Conditions cluster)"

datatype PodPhase = PodPending | PodRunning | PodSucceeded | PodFailed | PodUnknown

text \<open>
  A cluster client is what its queries return: \<^verbatim>\<open>GetClusterPods\<close> (allocatable and total
  pods, or an error) and the pod list of a namespace (the phases of its pods, or an
  error). Both are collaborators outside the source at hand.
\<close>

record ClusterClient =
  GetClusterPods :: "error + (goint \<times> goint)"
  listPods :: "string \<Rightarrow> error + PodPhase list"

text \<open>
  The collaborators of the controller. The federation client's \<^verbatim>\<open>Get\<close> and \<^verbatim>\<open>Update\<close> and
  the client factory return a pointer and an error, as in Go: the source reads the
  pointer on its error paths too, so the pair is kept.
\<close>

record World =
  listClusters :: "error + Cluster list"
  getCluster :: "string \<Rightarrow> Cluster option \<times> error option"
  persistCluster :: "Cluster \<Rightarrow> Cluster option \<times> error option"
  NewClusterClientSet :: "Cluster \<Rightarrow> ClusterClient option \<times> error option"
  storeList :: "error + Cluster list"
  clock :: Clock
  defaults :: Defaults

text \<open>
  What the controller does to the outside is recorded as a list of events, oldest first:
  the calls of the two set handlers, each successful \<^verbatim>\<open>Update\<close> and each call of the
  \<^verbatim>\<open>OnClusterChange\<close> callback.
\<close>

datatype Event =
  ClusterAdded string | ClusterDeleted string | ClusterPersisted Cluster | ChangeNotified

text \<open>
  \<^verbatim>\<open>knownClusterSet\<close> is a \<^verbatim>\<open>sets.String\<close>; it is kept as a list read as a set. Go
  ranges over such a set in an order it leaves open; the order of the list stands for
  one such order, and the results below do not depend on it. The field
  \<^verbatim>\<open>OnClusterChange\<close> says whether a callback is registered.
\<close>

record ClusterController =
  knownClusterSet :: "string list"
  clusterKubeClientMap :: "string \<rightharpoonup> ClusterClient"
  OnClusterChange :: bool
  events :: "Event list"

definition setHas :: "string list \<Rightarrow> string \<Rightarrow> bool" where
  "setHas xs x \<longleftrightarrow> x \<in> set xs"

definition setInsert :: "string list \<Rightarrow> string \<Rightarrow> string list" where
  "setInsert xs x = (if x \<in> set xs then xs else xs @ [x])"

definition setDelete :: "string list \<Rightarrow> string \<Rightarrow> string list" where
  "setDelete xs x = removeAll x xs"

definition setLen :: "string list \<Rightarrow> nat" where
  "setLen xs = length (remdups xs)"

definition setDifference :: "string list \<Rightarrow> string list \<Rightarrow> string list" where
  "setDifference xs ys = remdups (filter (\<lambda>x. x \<notin> set ys) xs)"

definition notifyChange :: "ClusterController \<Rightarrow> ClusterController" where
  "notifyChange cc =
     (if OnClusterChange cc then cc\<lparr>events := events cc @ [ChangeNotified]\<rparr> else cc)"

definition delFromClusterSetByName :: "ClusterController \<Rightarrow> string \<Rightarrow> ClusterController" where
  "delFromClusterSetByName cc clusterName =
     notifyChange
       (cc\<lparr>knownClusterSet := setDelete (knownClusterSet cc) clusterName,
           clusterKubeClientMap := (clusterKubeClientMap cc)(clusterName := None),
           events := events cc @ [ClusterDeleted clusterName]\<rparr>)"

definition updateClusterClient ::
  "World \<Rightarrow> ClusterController \<Rightarrow> Cluster \<Rightarrow>
   ClusterController \<times> (ClusterClient option \<times> error option)" where
  "updateClusterClient w cc cluster =
     (case NewClusterClientSet w cluster of
        (client, err) \<Rightarrow>
          (case client of
             None \<Rightarrow> (cc, (None, err))
           | Some c \<Rightarrow>
               if err \<noteq> None then (cc, (None, err))
               else (cc\<lparr>clusterKubeClientMap := (clusterKubeClientMap cc)(Name cluster \<mapsto> c)\<rparr>,
                     (Some c, None))))"

definition GetClusterClient ::
  "World \<Rightarrow> ClusterController \<Rightarrow> Cluster \<Rightarrow>
   ClusterController \<times> (ClusterClient option \<times> error option)" where
  "GetClusterClient w cc cluster =
     (case clusterKubeClientMap cc (Name cluster) of
        None \<Rightarrow> updateClusterClient w cc cluster
      | Some clusterClient \<Rightarrow> (cc, (Some clusterClient, None)))"

definition addToClusterSet :: "World \<Rightarrow> ClusterController \<Rightarrow> Cluster \<Rightarrow> ClusterController" where
  "addToClusterSet w cc cluster =
     (let cc1 = cc\<lparr>knownClusterSet := setInsert (knownClusterSet cc) (Name cluster),
                    events := events cc @ [ClusterAdded (Name cluster)]\<rparr>
      in case Annotations cluster NavarkosClusterStateKey of
           Some clusterStatus \<Rightarrow>
             if clusterStatus = NavarkosClusterStateReady
             then fst (updateClusterClient w cc1 cluster)
             else cc1
         | None \<Rightarrow> fst (updateClusterClient w cc1 cluster))"

definition getCountOfUsedPods :: "ClusterClient \<Rightarrow> error + goint" where
  "getCountOfUsedPods clusterClient =
     (case listPods clusterClient [] of
        Inl err \<Rightarrow> Inl err
      | Inr usedPodsList \<Rightarrow>
          Inr (of_nat (length (filter (\<lambda>phase. phase = PodPending \<or> phase = PodRunning)
                                 usedPodsList))))"

definition getCountOfUsedPodsSystemNS :: "ClusterClient \<Rightarrow> error + goint" where
  "getCountOfUsedPodsSystemNS clusterClient =
     (case listPods clusterClient ''kube-system'' of
        Inl err \<Rightarrow> Inl err
      | Inr usedPodsSystemNS \<Rightarrow>
          (let usedPodsBmcNS =
                 (case listPods clusterClient ''oracle-bmc'' of
                    Inl err \<Rightarrow> 0
                  | Inr usedPodsBmcNSList \<Rightarrow> of_nat (length usedPodsBmcNSList))
           in Inr (of_nat (length usedPodsSystemNS) + usedPodsBmcNS)))"

text \<open>
  \<^verbatim>\<open>getClusterStats\<close> returns the statistics map (nil, here the empty list, on every early
  return) and the error, which is nil as well when the factory returned neither a client
  nor an error.
\<close>

definition getClusterStats ::
  "World \<Rightarrow> ClusterController \<Rightarrow> Cluster \<Rightarrow> ClusterController \<times> (Stats \<times> error option)" where
  "getClusterStats w cc cluster =
     (case GetClusterClient w cc cluster of
        (cc1, (clusterClient, err)) \<Rightarrow>
          (case clusterClient of
             None \<Rightarrow> (cc1, ([], err))
           | Some client \<Rightarrow>
               (case GetClusterPods client of
                  Inl e \<Rightarrow> (cc1, ([], Some e))
                | Inr (currentAllocatablePods, currentCapacityPods) \<Rightarrow>
                    (case getCountOfUsedPods client of
                       Inl e \<Rightarrow> (cc1, ([], Some e))
                     | Inr currentUsedPods \<Rightarrow>
                         (case getCountOfUsedPodsSystemNS client of
                            Inl e \<Rightarrow> (cc1, ([], Some e))
                          | Inr usedSysPods \<Rightarrow>
                              (cc1,
                               ([(NavarkosClusterCapacityAllocatablePodsKey, currentAllocatablePods),
                                 (NavarkosClusterCapacityPodsKey, currentCapacityPods),
                                 (NavarkosClusterCapacityUsedPodsKey, currentUsedPods),
                                 (NavarkosClusterCapacitySystemPodsKey, usedSysPods)],
                                None)))))))"

text \<open>
  One round of the last loop of \<^verbatim>\<open>UpdateClusterStatus\<close>, for one listed cluster. The
  result is the panic that ended it, if any, and the controller as the round left it.
  Both log statements after \<^verbatim>\<open>Get\<close> and both after \<^verbatim>\<open>Update\<close> read the name through the
  returned pointer, which panics on nil.
\<close>

definition syncCluster ::
  "World \<Rightarrow> ClusterController \<Rightarrow> Cluster \<Rightarrow> panic option \<times> ClusterController" where
  "syncCluster w cc clusterObj =
     (if DeletionTimestamp clusterObj \<noteq> None \<or> \<not> isClusterReady clusterObj then (None, cc)
      else
        (case getClusterStats w cc clusterObj of
           (cc1, (newStats, err)) \<Rightarrow>
             if err \<noteq> None then (None, cc1)
             else
               (case getCluster w (Name clusterObj) of
                  (None, err) \<Rightarrow> (Some NilDereference, cc1)
                | (Some cluster, err) \<Rightarrow>
                    if err \<noteq> None then (None, cc1)
                    else if \<not> isClusterReady cluster then (None, cc1)
                    else
                      (case decideAnnotations (clock w) (defaults w) newStats
                              (Annotations cluster) of
                         Inl p \<Rightarrow> (Some p, cc1)
                       | Inr (anns, updateCluster) \<Rightarrow>
                           if updateCluster then
                             (case persistCluster w (cluster\<lparr>Annotations := anns\<rparr>) of
                                (None, err) \<Rightarrow> (Some NilDereference, cc1)
                              | (Some updatedCluster, err) \<Rightarrow>
                                  if err \<noteq> None then (None, cc1)
                                  else
                                    (None,
                                     notifyChange
                                       (cc1\<lparr>events :=
                                          events cc1 @ [ClusterPersisted updatedCluster]\<rparr>)))
                           else (None, cc1)))))"

fun syncClusters ::
  "World \<Rightarrow> ClusterController \<Rightarrow> Cluster list \<Rightarrow> panic option \<times> ClusterController" where
  "syncClusters w cc [] = (None, cc)"
| "syncClusters w cc (clusterObj # rest) =
     (case syncCluster w cc clusterObj of
        (Some p, cc1) \<Rightarrow> (Some p, cc1)
      | (None, cc1) \<Rightarrow> syncClusters w cc1 rest)"

definition addListed :: "World \<Rightarrow> ClusterController \<Rightarrow> Cluster list \<Rightarrow> ClusterController" where
  "addListed w cc items =
     fold (\<lambda>cluster c. if \<not> setHas (knownClusterSet c) (Name cluster)
                        then addToClusterSet w c cluster else c)
       items cc"

definition reconcileDeleted :: "ClusterController \<Rightarrow> Cluster list \<Rightarrow> ClusterController" where
  "reconcileDeleted cc items =
     (if setLen (knownClusterSet cc) \<noteq> length items then
        (let observedSet = fold (\<lambda>cluster obs. setInsert obs (Name cluster)) items [];
             deleted = setDifference (knownClusterSet cc) observedSet
         in fold (\<lambda>clusterName c. delFromClusterSetByName c clusterName) deleted cc)
      else cc)"

datatype Outcome = Completed | ListFailed error | Panicked panic

definition UpdateClusterStatus :: "World \<Rightarrow> ClusterController \<Rightarrow> Outcome \<times> ClusterController" where
  "UpdateClusterStatus w cc =
     (case listClusters w of
        Inl err \<Rightarrow> (ListFailed err, cc)
      | Inr items \<Rightarrow>
          (case syncClusters w (reconcileDeleted (addListed w cc items) items) items of
             (Some p, cc1) \<Rightarrow> (Panicked p, cc1)
           | (None, cc1) \<Rightarrow> (Completed, cc1)))"

text \<open>
  The two listings of the store. \<^verbatim>\<open>DeepCopy\<close> yields a cluster equal to the stored one;
  clusters are values here, so a caller that changes its copy cannot reach the store.
\<close>

definition GetReadyClusters :: "World \<Rightarrow> error + Cluster list" where
  "GetReadyClusters w =
     (case storeList w of
        Inl err \<Rightarrow> Inl err
      | Inr items \<Rightarrow>
          Inr (fold (\<lambda>cluster result. if isClusterReady cluster then result @ [cluster]
                                       else result) items []))"

definition GetUnreadyClusters :: "World \<Rightarrow> error + Cluster list" where
  "GetUnreadyClusters w =
     (case storeList w of
        Inl err \<Rightarrow> Inl err
      | Inr items \<Rightarrow>
          Inr (fold (\<lambda>cluster result. if \<not> isClusterReady cluster then result @ [cluster]
                                       else result) items []))"

section \<open>The rules in the specification's words\<close>

text \<open>
  The quantities the specification names, read off the annotations: the percentage of
  user capacity in use, the two thresholds, the autoscale gate and the expiry of the
  idle timer. They are compared with the source's rules below.
\<close>

definition usedOverCapacityPct :: "Annotations \<Rightarrow> goint" where
  "usedOverCapacityPct anns =
     go_div
       ((getAnnotationIntegerValue anns NavarkosClusterCapacityUsedPodsKey 0 -
         getAnnotationIntegerValue anns NavarkosClusterCapacitySystemPodsKey 0) * 100)
       (getAnnotationIntegerValue anns NavarkosClusterCapacityPodsKey 0 -
        getAnnotationIntegerValue anns NavarkosClusterCapacitySystemPodsKey 0)"

definition scaleUpThreshold :: "Defaults \<Rightarrow> Annotations \<Rightarrow> goint" where
  "scaleUpThreshold cfg anns =
     getAnnotationIntegerValue anns NavarkosClusterScaleUpCapacityThresholdKey
       (NavarkosDefaultClusterScaleUpCapacityThreshold cfg)"

definition scaleDownThreshold :: "Defaults \<Rightarrow> Annotations \<Rightarrow> goint" where
  "scaleDownThreshold cfg anns =
     getAnnotationIntegerValue anns NavarkosClusterScaleDownCapacityThresholdKey
       (NavarkosClusterScaleDownCapacityThreshold cfg)"

definition autoScaleEnabled :: "Annotations \<Rightarrow> bool" where
  "autoScaleEnabled anns =
     (case anns NavarkosClusterAutoScaleKey of
        None \<Rightarrow> False
      | Some s \<Rightarrow> ParseBool s = Some True)"

definition timeToLive :: "Defaults \<Rightarrow> Annotations \<Rightarrow> goint" where
  "timeToLive cfg anns =
     getAnnotationIntegerValue anns NavarkosClusterTimeToLiveBeforeShutdownKey
       (NavarkosDefaultClusterTimeToLiveBeforeShutdown cfg)"

definition ttlExpired :: "Clock \<Rightarrow> Defaults \<Rightarrow> Annotations \<Rightarrow> bool" where
  "ttlExpired clk cfg anns =
     (case anns NavarkosClusterShutdownStartTimeKey of
        None \<Rightarrow> False
      | Some s \<Rightarrow>
          (case parseUnixDate clk s of
             None \<Rightarrow> False
           | Some t \<Rightarrow> 0 <s timeToLive cfg anns \<and> timeToLive cfg anns \<le>s sinceSeconds clk t))"

text \<open>
  The statistics \<^verbatim>\<open>getClusterStats\<close> returns have the four capacity keys only (or no
  entry at all, for the nil map).
\<close>

definition capacityKeys :: "string list" where
  "capacityKeys =
     [NavarkosClusterCapacityAllocatablePodsKey, NavarkosClusterCapacityPodsKey,
      NavarkosClusterCapacityUsedPodsKey, NavarkosClusterCapacitySystemPodsKey]"

definition capacityStats :: "Stats \<Rightarrow> bool" where
  "capacityStats st = list_all (\<lambda>(k, v). k \<in> set capacityKeys) st"

text \<open>
  The idle rule has something to do: no user pod is left, the state is Ready and no timer
  runs yet; or user pods are back and a timer runs.
\<close>

definition idleMarkFires :: "Annotations \<Rightarrow> bool" where
  "idleMarkFires anns =
     (if getAnnotationIntegerValue anns NavarkosClusterCapacityUsedPodsKey 0 =
         getAnnotationIntegerValue anns NavarkosClusterCapacitySystemPodsKey 0
      then anns NavarkosClusterShutdownStartTimeKey = None \<and>
           annotationOrEmpty anns NavarkosClusterStateKey = NavarkosClusterStateReady
      else anns NavarkosClusterShutdownStartTimeKey \<noteq> None)"


text \<open>
  Readiness as the specification words it, the collection of a snapshot through a given
  client, and the number of change notifications delivered so far.
\<close>

definition hasReadyCondition :: "Cluster \<Rightarrow> bool" where
  "hasReadyCondition cluster =
     list_ex (\<lambda>condition. condType condition = ClusterReady \<and>
                           condStatus condition = ConditionTrue) (Conditions cluster)"

definition queryStats :: "ClusterClient \<Rightarrow> Stats \<times> error option" where
  "queryStats client =
     (case GetClusterPods client of
        Inl e \<Rightarrow> ([], Some e)
      | Inr (allocatablePods, capacityPods) \<Rightarrow>
          (case getCountOfUsedPods client of
             Inl e \<Rightarrow> ([], Some e)
           | Inr usedPods \<Rightarrow>
               (case getCountOfUsedPodsSystemNS client of
                  Inl e \<Rightarrow> ([], Some e)
                | Inr systemPods \<Rightarrow>
                    ([(NavarkosClusterCapacityAllocatablePodsKey, allocatablePods),
                      (NavarkosClusterCapacityPodsKey, capacityPods),
                      (NavarkosClusterCapacityUsedPodsKey, usedPods),
                      (NavarkosClusterCapacitySystemPodsKey, systemPods)], None))))"

definition notifications :: "ClusterController \<Rightarrow> nat" where
  "notifications cc = length (filter (\<lambda>e. e = ChangeNotified) (events cc))"

text \<open>
  The names the delete handler and the add handler were called with, in the order of
  the calls, read off the recorded events.
\<close>

fun deletedNames :: "Event list \<Rightarrow> string list" where
  "deletedNames [] = []"
| "deletedNames (ClusterDeleted n # es) = n # deletedNames es"
| "deletedNames (e # es) = deletedNames es"

fun addedNames :: "Event list \<Rightarrow> string list" where
  "addedNames [] = []"
| "addedNames (ClusterAdded n # es) = n # addedNames es"
| "addedNames (e # es) = addedNames es"

section \<open>Concrete inputs\<close>

definition exampleDefaults :: Defaults where
  "exampleDefaults =
     \<lparr>NavarkosDefaultClusterTimeToLiveBeforeShutdown = 3600,
      NavarkosDefaultClusterScaleUpCapacityThreshold = 80,
      NavarkosClusterScaleDownCapacityThreshold = 20\<rparr>"

text \<open>
  A clock reading noon of 31 October 2026 (1793448000 seconds of the epoch) that parses
  the two time stamps the examples use.
\<close>

definition exampleClock :: Clock where
  "exampleClock =
     \<lparr>nowUnixDate = ''Sat Oct 31 12:00:00 UTC 2026'',
      parseUnixDate = (\<lambda>s. if s = ''Sat Oct 31 12:00:00 UTC 2026'' then Some 1793448000
                           else if s = ''Sat Oct 31 11:00:00 UTC 2026'' then Some 1793444400
                           else None),
      sinceSeconds = (\<lambda>t. word_of_int (1793448000 - t))\<rparr>"

definition exampleScaleUp :: Annotations where
  "exampleScaleUp =
     map_of [(NavarkosClusterStateKey, NavarkosClusterStateReady),
             (NavarkosClusterAutoScaleKey, ''true''),
             (NavarkosClusterCapacityAllocatablePodsKey, ''100''),
             (NavarkosClusterCapacityPodsKey, ''100''),
             (NavarkosClusterCapacitySystemPodsKey, ''10''),
             (NavarkosClusterCapacityUsedPodsKey, ''91''),
             (NavarkosClusterScaleUpCapacityThresholdKey, ''80''),
             (NavarkosClusterScaleDownCapacityThresholdKey, ''20'')]"


definition exampleExpired :: Annotations where
  "exampleExpired =
     map_of [(NavarkosClusterStateKey, NavarkosClusterStateReady),
             (NavarkosClusterShutdownStartTimeKey, ''Sat Oct 31 11:00:00 UTC 2026''),
             (NavarkosClusterTimeToLiveBeforeShutdownKey, ''1800'')]"

text \<open>
  A cluster whose pods are all system pods and fill its capacity, with autoscaling on
  and the idle timer running for one hour of a two-hour time to live.
\<close>

definition exampleFull :: Annotations where
  "exampleFull =
     map_of [(NavarkosClusterStateKey, NavarkosClusterStateReady),
             (NavarkosClusterAutoScaleKey, ''true''),
             (NavarkosClusterCapacityAllocatablePodsKey, ''10''),
             (NavarkosClusterCapacityPodsKey, ''10''),
             (NavarkosClusterCapacityUsedPodsKey, ''10''),
             (NavarkosClusterCapacitySystemPodsKey, ''10''),
             (NavarkosClusterShutdownStartTimeKey, ''Sat Oct 31 11:00:00 UTC 2026''),
             (NavarkosClusterTimeToLiveBeforeShutdownKey, ''7200'')]"

definition exampleFullStats :: Stats where
  "exampleFullStats =
     [(NavarkosClusterCapacityAllocatablePodsKey, 10),
      (NavarkosClusterCapacityPodsKey, 10),
      (NavarkosClusterCapacityUsedPodsKey, 10),
      (NavarkosClusterCapacitySystemPodsKey, 10)]"

definition exampleBusyStats :: Stats where
  "exampleBusyStats =
     [(NavarkosClusterCapacityAllocatablePodsKey, 100),
      (NavarkosClusterCapacityPodsKey, 100),
      (NavarkosClusterCapacityUsedPodsKey, 91),
      (NavarkosClusterCapacitySystemPodsKey, 10)]"

text \<open>
  A cluster seen for the first time: Ready, autoscaling on, no capacity annotation yet;
  and a snapshot of it with system pods only.
\<close>

definition exampleFresh :: Annotations where
  "exampleFresh =
     map_of [(NavarkosClusterStateKey, NavarkosClusterStateReady),
             (NavarkosClusterAutoScaleKey, ''true'')]"

definition exampleIdleStats :: Stats where
  "exampleIdleStats =
     [(NavarkosClusterCapacityAllocatablePodsKey, 10),
      (NavarkosClusterCapacityPodsKey, 10),
      (NavarkosClusterCapacityUsedPodsKey, 5),
      (NavarkosClusterCapacitySystemPodsKey, 5)]"

definition exampleFreshWritten :: Annotations where
  "exampleFreshWritten = updateClusterStats exampleFresh exampleIdleStats"


definition exampleClient :: ClusterClient where
  "exampleClient =
     \<lparr>GetClusterPods = Inr (10, 10),
      listPods = (\<lambda>ns. if ns = [] then Inr [PodRunning, PodRunning, PodPending, PodRunning,
                                              PodSucceeded, PodRunning]
                        else if ns = ''kube-system'' then
                          Inr [PodRunning, PodRunning, PodRunning, PodRunning, PodRunning]
                        else Inl (Error ''namespace not found''))\<rparr>"

definition readyCondition :: ClusterCondition where
  "readyCondition = \<lparr>condType = ClusterReady, condStatus = ConditionTrue\<rparr>"

definition exampleCluster :: "string \<Rightarrow> ClusterCondition list \<Rightarrow> Cluster" where
  "exampleCluster n cs =
     \<lparr>Name = n, DeletionTimestamp = None, Annotations = exampleFresh, Conditions = cs\<rparr>"

definition exampleWorld :: World where
  "exampleWorld =
     \<lparr>listClusters = Inr [exampleCluster ''A'' [], exampleCluster ''C'' []],
      getCluster = (\<lambda>n. (Some (exampleCluster n [readyCondition]), None)),
      persistCluster = (\<lambda>c. (Some c, None)),
      NewClusterClientSet = (\<lambda>c. (Some exampleClient, None)),
      storeList = Inr [exampleCluster ''A'' [readyCondition], exampleCluster ''B'' []],
      clock = exampleClock,
      defaults = exampleDefaults\<rparr>"

definition exampleController :: ClusterController where
  "exampleController =
     \<lparr>knownClusterSet = [''A'', ''B'', ''C''], clusterKubeClientMap = Map.empty,
      OnClusterChange = True, events = []\<rparr>"

text \<open>
  A controller that knows A, B and C and holds a client for B; a controller in step with
  a list of A and C; and a world that lists A and C as ready, whose \<^verbatim>\<open>Get\<close> fails for A
  with a nil pointer, as \<^verbatim>\<open>Get\<close> of the clientset's test double does.
\<close>

definition exampleKnownABC :: ClusterController where
  "exampleKnownABC =
     \<lparr>knownClusterSet = [''A'', ''B'', ''C''],
      clusterKubeClientMap = [''B'' \<mapsto> exampleClient],
      OnClusterChange = True, events = []\<rparr>"

definition exampleSynced :: ClusterController where
  "exampleSynced =
     \<lparr>knownClusterSet = [''A'', ''C''],
      clusterKubeClientMap = [''A'' \<mapsto> exampleClient, ''C'' \<mapsto> exampleClient],
      OnClusterChange = True, events = []\<rparr>"

definition exampleWorldGetError :: World where
  "exampleWorldGetError =
     exampleWorld
       \<lparr>listClusters :=
          Inr [exampleCluster ''A'' [readyCondition], exampleCluster ''C'' [readyCondition]],
        getCluster :=
          (\<lambda>n. if n = ''A'' then (None, Some (Error ''request timed out''))
                else (Some (exampleCluster n [readyCondition]), None))\<rparr>"

section \<open>Basic facts\<close>

lemmas key_defs =
  NavarkosClusterStateKey_def NavarkosClusterCapacityAllocatablePodsKey_def
  NavarkosClusterCapacityPodsKey_def NavarkosClusterCapacityUsedPodsKey_def
  NavarkosClusterCapacitySystemPodsKey_def NavarkosClusterShutdownStartTimeKey_def
  NavarkosClusterTimeToLiveBeforeShutdownKey_def NavarkosClusterAutoScaleKey_def
  NavarkosClusterScaleUpCapacityThresholdKey_def
  NavarkosClusterScaleDownCapacityThresholdKey_def

lemmas state_defs =
  NavarkosClusterStateReady_def NavarkosClusterStateOffline_def
  NavarkosClusterStatePendingShutdown_def NavarkosClusterStatePendingScaleUp_def
  NavarkosClusterStatePendingScaleDown_def

lemmas atoi_defs = Atoi_def parseUnsigned_def digitVal_def

lemma state_key_neq:
  "NavarkosClusterStateKey \<noteq> NavarkosClusterShutdownStartTimeKey"
  "NavarkosClusterStateKey \<noteq> NavarkosClusterTimeToLiveBeforeShutdownKey"
  "NavarkosClusterStateKey \<noteq> NavarkosClusterCapacityAllocatablePodsKey"
  "NavarkosClusterStateKey \<noteq> NavarkosClusterCapacityPodsKey"
  "NavarkosClusterStateKey \<noteq> NavarkosClusterCapacityUsedPodsKey"
  "NavarkosClusterStateKey \<noteq> NavarkosClusterCapacitySystemPodsKey"
  "NavarkosClusterStateKey \<noteq> NavarkosClusterAutoScaleKey"
  "NavarkosClusterStateKey \<noteq> NavarkosClusterScaleUpCapacityThresholdKey"
  "NavarkosClusterStateKey \<noteq> NavarkosClusterScaleDownCapacityThresholdKey"
  by (simp_all add: key_defs)

lemma start_key_neq:
  "NavarkosClusterShutdownStartTimeKey \<noteq> NavarkosClusterStateKey"
  "NavarkosClusterShutdownStartTimeKey \<noteq> NavarkosClusterTimeToLiveBeforeShutdownKey"
  "NavarkosClusterShutdownStartTimeKey \<noteq> NavarkosClusterCapacityAllocatablePodsKey"
  "NavarkosClusterShutdownStartTimeKey \<noteq> NavarkosClusterCapacityPodsKey"
  "NavarkosClusterShutdownStartTimeKey \<noteq> NavarkosClusterCapacityUsedPodsKey"
  "NavarkosClusterShutdownStartTimeKey \<noteq> NavarkosClusterCapacitySystemPodsKey"
  "NavarkosClusterShutdownStartTimeKey \<noteq> NavarkosClusterAutoScaleKey"
  "NavarkosClusterShutdownStartTimeKey \<noteq> NavarkosClusterScaleUpCapacityThresholdKey"
  "NavarkosClusterShutdownStartTimeKey \<noteq> NavarkosClusterScaleDownCapacityThresholdKey"
  by (simp_all add: key_defs)

lemma state_value_neq:
  "NavarkosClusterStatePendingShutdown \<noteq> NavarkosClusterStateReady"
  "NavarkosClusterStatePendingScaleUp \<noteq> NavarkosClusterStateReady"
  "NavarkosClusterStatePendingScaleDown \<noteq> NavarkosClusterStateReady"
  by (simp_all add: state_defs)

lemma exampleScaleUp_reads:
  "autoScaleEnabled exampleScaleUp"
  "annotationOrEmpty exampleScaleUp NavarkosClusterStateKey = NavarkosClusterStateReady"
  "getAnnotationIntegerValue exampleScaleUp NavarkosClusterCapacityPodsKey 0 = 100"
  "getAnnotationIntegerValue exampleScaleUp NavarkosClusterCapacitySystemPodsKey 0 = 10"
  "getAnnotationIntegerValue exampleScaleUp NavarkosClusterCapacityUsedPodsKey 0 = 91"
  "scaleUpThreshold cfg exampleScaleUp = 80"
  "scaleDownThreshold cfg exampleScaleUp = 20"
  by (simp_all add: exampleScaleUp_def autoScaleEnabled_def annotationOrEmpty_def
      getAnnotationIntegerValue_def scaleUpThreshold_def scaleDownThreshold_def
      ParseBool_def key_defs atoi_defs)


lemma go_div_examples:
  "go_div 8100 90 = 90"
  "go_div 900 90 = 10"
  "go_div (- 7) 2 = - 3"
  by (simp_all add: go_div_def signed_divide_int_def)

text \<open>
  On the signed values the quotient is the one truncated towards zero, but for the single
  quotient that does not fit, the least value divided by minus one, which wraps.
\<close>

lemma abs_sdiv_le: "\<bar>(k::int) sdiv l\<bar> \<le> \<bar>k\<bar>"
proof -
  have nn: "0 \<le> \<bar>k\<bar> div \<bar>l\<bar>"
    by (cases "l = 0") (simp_all add: pos_imp_zdiv_nonneg_iff)
  have le: "\<bar>k\<bar> div \<bar>l\<bar> \<le> \<bar>k\<bar>"
  proof (cases "\<bar>l\<bar> \<le> 1")
    case True
    then have "\<bar>l\<bar> = 0 \<or> \<bar>l\<bar> = 1"
      by linarith
    then show ?thesis
      by auto
  next
    case False
    then have "\<bar>k\<bar> div \<bar>l\<bar> \<le> \<bar>k\<bar> div 1"
      by (intro zdiv_mono2) simp_all
    then show ?thesis
      by simp
  qed
  have "\<bar>k sdiv l\<bar> = \<bar>sgn k * sgn l\<bar> * (\<bar>k\<bar> div \<bar>l\<bar>)"
    using nn by (simp add: signed_divide_int_def abs_mult)
  also have "\<dots> \<le> 1 * (\<bar>k\<bar> div \<bar>l\<bar>)"
    using nn by (intro mult_right_mono) (simp_all add: abs_mult sgn_if)
  finally show ?thesis
    using le by simp
qed

lemma sint_go_div:
  assumes "\<not> (sint a = - (2 ^ 63) \<and> sint b = - 1)"
  shows "sint (go_div a b) = sint a sdiv sint b"
proof -
  let ?x = "sint a sdiv sint b"
  have ra: "- (2 ^ 63) \<le> sint a" "sint a < 2 ^ 63"
    using sint_ge [of a] sint_lt [of a] by simp_all
  have le: "\<bar>?x\<bar> \<le> \<bar>sint a\<bar>"
    by (rule abs_sdiv_le)
  have lo: "- (2 ^ 63) \<le> ?x"
    using le ra by linarith
  have hi: "?x < 2 ^ 63"
  proof (rule ccontr)
    assume "\<not> ?x < 2 ^ 63"
    then have x: "?x = 2 ^ 63" and a: "sint a = - (2 ^ 63)"
      using le ra by linarith+
    have "sint b = - 1"
    proof (rule ccontr)
      assume nb: "sint b \<noteq> - 1"
      consider "sint b = 0" | "0 < sint b" | "sint b \<le> - 2"
        using nb by linarith
      then show False
      proof cases
        case 1
        then show ?thesis using x by (simp add: signed_divide_int_def)
      next
        case 2
        then have "?x = - (2 ^ 63 div sint b)"
          by (simp add: signed_divide_int_def a)
        moreover have "0 \<le> (2 ^ 63 :: int) div sint b"
          using 2 by (simp add: pos_imp_zdiv_nonneg_iff)
        ultimately show ?thesis
          using x by simp
      next
        case 3
        then have "?x = 2 ^ 63 div \<bar>sint b\<bar>"
          by (simp add: signed_divide_int_def a)
        moreover have "(2 ^ 63 :: int) div \<bar>sint b\<bar> \<le> 2 ^ 63 div 2"
          using 3 by (intro zdiv_mono2) simp_all
        ultimately show ?thesis
          using x by simp
      qed
    qed
    then show False
      using assms a by simp
  qed
  show ?thesis
    using lo hi by (simp add: go_div_def sint_sbintrunc' signed_take_bit_int_eq_self)
qed

lemma getAnnotationIntegerValue_upd:
  "k \<noteq> k' \<Longrightarrow> getAnnotationIntegerValue (a(k := x)) k' d = getAnnotationIntegerValue a k' d"
  by (simp add: getAnnotationIntegerValue_def)

lemma getAnnotationIntegerValue_cong:
  "a' k = a k \<Longrightarrow> getAnnotationIntegerValue a' k d = getAnnotationIntegerValue a k d"
  by (simp add: getAnnotationIntegerValue_def)

lemma mark_snd: "snd (markClusterToShutDownIfNoPods clk a) = idleMarkFires a"
  by (simp add: markClusterToShutDownIfNoPods_def idleMarkFires_def Let_def)

lemma mark_unchanged:
  "\<not> idleMarkFires a \<Longrightarrow> markClusterToShutDownIfNoPods clk a = (a, False)"
  by (auto simp add: markClusterToShutDownIfNoPods_def idleMarkFires_def Let_def split: if_splits)

lemma ttl_eq:
  "shutDownClusterIfTTLExpired clk cfg a =
     (if ttlExpired clk cfg a
      then ((a(NavarkosClusterStateKey \<mapsto> NavarkosClusterStatePendingShutdown))
              (NavarkosClusterShutdownStartTimeKey := None), True)
      else (a, False))"
  by (simp add: shutDownClusterIfTTLExpired_def ttlExpired_def timeToLive_def Let_def
      split: option.splits)

lemma scale_not_ready:
  "annotationOrEmpty a NavarkosClusterStateKey \<noteq> NavarkosClusterStateReady \<Longrightarrow>
   markClusterForScalingIfPodsHitThresholds cfg a = Inr (a, False)"
  by (simp add: markClusterForScalingIfPodsHitThresholds_def Let_def split: option.splits)

lemma scale_changed:
  assumes "markClusterForScalingIfPodsHitThresholds cfg a = Inr (a', True)"
  shows "annotationOrEmpty a NavarkosClusterStateKey = NavarkosClusterStateReady \<and>
         (a' = a(NavarkosClusterStateKey \<mapsto> NavarkosClusterStatePendingScaleUp) \<or>
          a' = a(NavarkosClusterStateKey \<mapsto> NavarkosClusterStatePendingScaleDown))"
  using assms
  by (auto simp add: markClusterForScalingIfPodsHitThresholds_def Let_def
      split: option.splits if_splits)

lemma scale_unchanged:
  assumes "markClusterForScalingIfPodsHitThresholds cfg a = Inr (a', False)"
  shows "a' = a"
  using assms
  by (auto simp add: markClusterForScalingIfPodsHitThresholds_def Let_def
      split: option.splits if_splits)

lemma decide_absent:
  "\<not> IsCapacityDataPresent a \<Longrightarrow>
   decideAnnotations clk cfg st a = Inr (updateClusterStats a st, True)"
  by (simp add: decideAnnotations_def)

lemma decide_refresh:
  "IsCapacityDataPresent a \<Longrightarrow> isStatsChanged st a \<Longrightarrow>
   decideAnnotations clk cfg st a = Inr (updateClusterStats a st, True)"
  by (simp add: decideAnnotations_def)

lemma decide_mark:
  "IsCapacityDataPresent a \<Longrightarrow> \<not> isStatsChanged st a \<Longrightarrow> idleMarkFires a \<Longrightarrow>
   decideAnnotations clk cfg st a = Inr (markClusterToShutDownIfNoPods clk a)"
  using mark_snd [of clk a]
  by (cases "markClusterToShutDownIfNoPods clk a") (simp add: decideAnnotations_def)

lemma decide_ttl:
  "IsCapacityDataPresent a \<Longrightarrow> \<not> isStatsChanged st a \<Longrightarrow> \<not> idleMarkFires a \<Longrightarrow>
   ttlExpired clk cfg a \<Longrightarrow>
   decideAnnotations clk cfg st a = Inr (shutDownClusterIfTTLExpired clk cfg a)"
  by (simp add: decideAnnotations_def mark_unchanged ttl_eq)

lemma decide_scale:
  "IsCapacityDataPresent a \<Longrightarrow> \<not> isStatsChanged st a \<Longrightarrow> \<not> idleMarkFires a \<Longrightarrow>
   \<not> ttlExpired clk cfg a \<Longrightarrow>
   decideAnnotations clk cfg st a = markClusterForScalingIfPodsHitThresholds cfg a"
  by (simp add: decideAnnotations_def mark_unchanged ttl_eq)

lemma Itoa_examples: "Itoa 10 = ''10''" "Itoa 5 = ''5''"
  by (simp_all add: Itoa_def digitsOf.simps char_of_def bit_Suc_0_iff)

lemma exampleFreshWritten_eq:
  "exampleFreshWritten =
     exampleFresh(NavarkosClusterCapacityAllocatablePodsKey \<mapsto> ''10'',
       NavarkosClusterCapacityPodsKey \<mapsto> ''10'',
       NavarkosClusterCapacityUsedPodsKey \<mapsto> ''5'',
       NavarkosClusterCapacitySystemPodsKey \<mapsto> ''5'')"
  by (simp add: exampleFreshWritten_def updateClusterStats_def exampleIdleStats_def Itoa_examples)

lemma exampleFresh_absent: "\<not> IsCapacityDataPresent exampleFresh"
  by (simp add: IsCapacityDataPresent_def exampleFresh_def key_defs)

lemma exampleFreshWritten_reads:
  "IsCapacityDataPresent exampleFreshWritten"
  "\<not> isStatsChanged exampleIdleStats exampleFreshWritten"
  "idleMarkFires exampleFreshWritten"
  "exampleFreshWritten NavarkosClusterShutdownStartTimeKey = None"
  by (simp_all add: exampleFreshWritten_eq IsCapacityDataPresent_def isStatsChanged_def
      exampleIdleStats_def idleMarkFires_def exampleFresh_def annotationOrEmpty_def
      getAnnotationIntegerValue_def key_defs atoi_defs)

lemma capacityKeys_notin:
  "NavarkosClusterStateKey \<notin> set capacityKeys"
  "NavarkosClusterShutdownStartTimeKey \<notin> set capacityKeys"
  by (simp_all add: capacityKeys_def key_defs)

lemma IsCapacityDataPresent_upd:
  "k \<notin> set capacityKeys \<Longrightarrow> IsCapacityDataPresent (a(k := x)) = IsCapacityDataPresent a"
  by (auto simp add: IsCapacityDataPresent_def capacityKeys_def)

lemma isStatsChanged_upd:
  assumes "capacityStats st" and "k \<notin> set capacityKeys"
  shows "isStatsChanged st (a(k := x)) = isStatsChanged st a"
proof -
  have "getAnnotationIntegerValue (a(k := x)) (fst p) 0 = getAnnotationIntegerValue a (fst p) 0"
    if "p \<in> set st" for p
  proof -
    have "fst p \<in> set capacityKeys"
      using assms(1) that by (auto simp add: capacityStats_def list_all_iff)
    then have "k \<noteq> fst p"
      using assms(2) by blast
    then show ?thesis
      by (rule getAnnotationIntegerValue_upd)
  qed
  then have "(getAnnotationIntegerValue (a(k := x)) (fst p) 0 \<noteq> snd p) =
             (getAnnotationIntegerValue a (fst p) 0 \<noteq> snd p)" if "p \<in> set st" for p
    using that by simp
  then show ?thesis
    unfolding isStatsChanged_def list_ex_iff case_prod_beta by (rule bex_cong [OF refl])
qed

lemma ttlExpired_state_upd:
  "ttlExpired clk cfg (a(NavarkosClusterStateKey \<mapsto> v)) = ttlExpired clk cfg a"
proof -
  have "timeToLive cfg (a(NavarkosClusterStateKey \<mapsto> v)) = timeToLive cfg a"
    by (simp add: timeToLive_def getAnnotationIntegerValue_upd state_key_neq)
  then show ?thesis
    by (simp add: ttlExpired_def state_key_neq start_key_neq split: option.splits)
qed


lemma settled_after_state_change:
  assumes st: "capacityStats st"
    and pres: "IsCapacityDataPresent a" and same: "\<not> isStatsChanged st a"
    and idle: "\<not> idleMarkFires a"
    and ready: "annotationOrEmpty a NavarkosClusterStateKey = NavarkosClusterStateReady"
    and ttl: "\<not> ttlExpired clk cfg a"
    and v: "v \<noteq> NavarkosClusterStateReady"
  shows "decideAnnotations clk cfg st (a(NavarkosClusterStateKey \<mapsto> v)) =
         Inr (a(NavarkosClusterStateKey \<mapsto> v), False)"
proof -
  let ?a = "a(NavarkosClusterStateKey \<mapsto> v)"
  have p: "IsCapacityDataPresent ?a"
    using pres by (simp add: IsCapacityDataPresent_upd capacityKeys_notin)
  have s: "\<not> isStatsChanged st ?a"
    using same by (simp add: isStatsChanged_upd [OF st] capacityKeys_notin)
  have "a NavarkosClusterShutdownStartTimeKey \<noteq> None \<or>
        getAnnotationIntegerValue a NavarkosClusterCapacityUsedPodsKey 0 \<noteq>
        getAnnotationIntegerValue a NavarkosClusterCapacitySystemPodsKey 0"
    using idle ready by (auto simp add: idleMarkFires_def)
  then have i: "\<not> idleMarkFires ?a"
    using idle
    by (auto simp add: idleMarkFires_def getAnnotationIntegerValue_upd state_key_neq
        start_key_neq)
  have t: "\<not> ttlExpired clk cfg ?a"
    using ttl by (simp add: ttlExpired_state_upd)
  have "markClusterForScalingIfPodsHitThresholds cfg ?a = Inr (?a, False)"
    by (rule scale_not_ready) (simp add: annotationOrEmpty_def v)
  then show ?thesis
    using decide_scale [OF p s i t] by simp
qed

lemma settled_after_expiry:
  assumes st: "capacityStats st"
    and pres: "IsCapacityDataPresent a" and same: "\<not> isStatsChanged st a"
  shows "decideAnnotations clk cfg st
           ((a(NavarkosClusterStateKey \<mapsto> NavarkosClusterStatePendingShutdown))
              (NavarkosClusterShutdownStartTimeKey := None)) =
         Inr ((a(NavarkosClusterStateKey \<mapsto> NavarkosClusterStatePendingShutdown))
              (NavarkosClusterShutdownStartTimeKey := None), False)"
proof -
  let ?a = "(a(NavarkosClusterStateKey \<mapsto> NavarkosClusterStatePendingShutdown))
              (NavarkosClusterShutdownStartTimeKey := None)"
  have p: "IsCapacityDataPresent ?a"
    using pres by (simp add: IsCapacityDataPresent_upd capacityKeys_notin)
  have s: "\<not> isStatsChanged st ?a"
    using same by (simp add: isStatsChanged_upd [OF st] capacityKeys_notin)
  have i: "\<not> idleMarkFires ?a"
    by (simp add: idleMarkFires_def annotationOrEmpty_def state_key_neq start_key_neq
        state_value_neq)
  have t: "\<not> ttlExpired clk cfg ?a"
    by (simp add: ttlExpired_def)
  have "markClusterForScalingIfPodsHitThresholds cfg ?a = Inr (?a, False)"
    by (rule scale_not_ready)
       (simp add: annotationOrEmpty_def state_key_neq start_key_neq state_value_neq)
  then show ?thesis
    using decide_scale [OF p s i t] by simp
qed

lemma scale_zero_capacity:
  assumes "autoScaleEnabled a"
    and "annotationOrEmpty a NavarkosClusterStateKey = NavarkosClusterStateReady"
    and "getAnnotationIntegerValue a NavarkosClusterCapacityPodsKey 0 =
         getAnnotationIntegerValue a NavarkosClusterCapacitySystemPodsKey 0"
  shows "markClusterForScalingIfPodsHitThresholds cfg a = Inl DivideByZero"
  using assms
  by (auto simp add: markClusterForScalingIfPodsHitThresholds_def autoScaleEnabled_def Let_def
      split: option.splits)

lemma scale_eq:
  assumes "autoScaleEnabled a"
    and "annotationOrEmpty a NavarkosClusterStateKey = NavarkosClusterStateReady"
    and "getAnnotationIntegerValue a NavarkosClusterCapacityPodsKey 0 \<noteq>
         getAnnotationIntegerValue a NavarkosClusterCapacitySystemPodsKey 0"
  shows "markClusterForScalingIfPodsHitThresholds cfg a =
     (if scaleUpThreshold cfg a \<le>s usedOverCapacityPct a then
        Inr (a(NavarkosClusterStateKey \<mapsto> NavarkosClusterStatePendingScaleUp), True)
      else if usedOverCapacityPct a \<le>s scaleDownThreshold cfg a then
        Inr (a(NavarkosClusterStateKey \<mapsto> NavarkosClusterStatePendingScaleDown), True)
      else Inr (a, False))"
  using assms
  by (simp add: markClusterForScalingIfPodsHitThresholds_def autoScaleEnabled_def
      usedOverCapacityPct_def scaleUpThreshold_def scaleDownThreshold_def Let_def
      split: option.splits)

lemma fold_append_filter:
  "fold (\<lambda>x r. if P x then r @ [x] else r) xs acc = acc @ filter P xs"
  by (induction xs arbitrary: acc) simp_all

lemma readyAmong_iff:
  "readyAmong cs \<longleftrightarrow>
     list_ex (\<lambda>condition. condType condition = ClusterReady \<and>
                           condStatus condition = ConditionTrue) cs"
  by (induction cs) auto

lemma isClusterReady_iff: "isClusterReady = hasReadyCondition"
  by (rule ext) (simp add: isClusterReady_def hasReadyCondition_def readyAmong_iff)

lemma getClusterStats_query:
  "getClusterStats w cc cluster =
     (case GetClusterClient w cc cluster of
        (cc1, (None, err)) \<Rightarrow> (cc1, ([], err))
      | (cc1, (Some client, err)) \<Rightarrow> (cc1, queryStats client))"
  by (simp add: getClusterStats_def queryStats_def split: prod.splits option.splits sum.splits)

lemma exampleClient_stats: "queryStats exampleClient = (exampleIdleStats, None)"
  by (simp add: queryStats_def exampleClient_def getCountOfUsedPods_def
      getCountOfUsedPodsSystemNS_def exampleIdleStats_def)

lemma deletedNames_append: "deletedNames (xs @ ys) = deletedNames xs @ deletedNames ys"
  by (induction xs rule: deletedNames.induct) simp_all

lemma addedNames_append: "addedNames (xs @ ys) = addedNames xs @ addedNames ys"
  by (induction xs rule: addedNames.induct) simp_all

lemma updateClusterClient_fields:
  "knownClusterSet (fst (updateClusterClient w cc c)) = knownClusterSet cc"
  "events (fst (updateClusterClient w cc c)) = events cc"
  "OnClusterChange (fst (updateClusterClient w cc c)) = OnClusterChange cc"
  by (simp_all add: updateClusterClient_def split: prod.splits option.splits)

lemma updateClusterClient_map:
  "n \<noteq> Name c \<Longrightarrow>
   clusterKubeClientMap (fst (updateClusterClient w cc c)) n = clusterKubeClientMap cc n"
  by (simp add: updateClusterClient_def split: prod.splits option.splits)

lemma getClusterStats_fields:
  "knownClusterSet (fst (getClusterStats w cc c)) = knownClusterSet cc"
  "events (fst (getClusterStats w cc c)) = events cc"
  "OnClusterChange (fst (getClusterStats w cc c)) = OnClusterChange cc"
  using updateClusterClient_fields [of w cc c]
  by (auto simp add: getClusterStats_query GetClusterClient_def
      split: prod.splits option.splits)

lemma getClusterStats_map:
  "n \<noteq> Name c \<Longrightarrow>
   clusterKubeClientMap (fst (getClusterStats w cc c)) n = clusterKubeClientMap cc n"
  using updateClusterClient_map [of n c w cc]
  by (auto simp add: getClusterStats_query GetClusterClient_def
      split: prod.splits option.splits)

lemma addToClusterSet_fields:
  "knownClusterSet (addToClusterSet w cc c) = setInsert (knownClusterSet cc) (Name c)"
  "events (addToClusterSet w cc c) = events cc @ [ClusterAdded (Name c)]"
  "OnClusterChange (addToClusterSet w cc c) = OnClusterChange cc"
  by (simp_all add: addToClusterSet_def Let_def updateClusterClient_fields
      split: option.splits)

lemma addToClusterSet_map:
  "n \<noteq> Name c \<Longrightarrow>
   clusterKubeClientMap (addToClusterSet w cc c) n = clusterKubeClientMap cc n"
  by (simp add: addToClusterSet_def Let_def updateClusterClient_map split: option.splits)

lemma delFromClusterSetByName_fields:
  "knownClusterSet (delFromClusterSetByName cc n) = removeAll n (knownClusterSet cc)"
  "OnClusterChange (delFromClusterSetByName cc n) = OnClusterChange cc"
  "clusterKubeClientMap (delFromClusterSetByName cc n) = (clusterKubeClientMap cc)(n := None)"
  "events (delFromClusterSetByName cc n) =
     events cc @ ClusterDeleted n # (if OnClusterChange cc then [ChangeNotified] else [])"
  by (simp_all add: delFromClusterSetByName_def notifyChange_def setDelete_def)

lemma syncCluster_events:
  "events (snd (syncCluster w cc c)) = events cc \<or>
   (\<exists>u. events (snd (syncCluster w cc c)) =
      events cc @ ClusterPersisted u # (if OnClusterChange cc then [ChangeNotified] else []))"
  using getClusterStats_fields(2,3) [of w cc c]
  by (auto simp add: syncCluster_def notifyChange_def
      split: prod.splits option.splits sum.splits if_splits)

lemma syncCluster_fields:
  "knownClusterSet (snd (syncCluster w cc c)) = knownClusterSet cc"
  "OnClusterChange (snd (syncCluster w cc c)) = OnClusterChange cc"
  using getClusterStats_fields(1,3) [of w cc c]
  by (auto simp add: syncCluster_def notifyChange_def
      split: prod.splits option.splits sum.splits if_splits)

lemma syncCluster_map:
  "n \<noteq> Name c \<Longrightarrow>
   clusterKubeClientMap (snd (syncCluster w cc c)) n = clusterKubeClientMap cc n"
  using getClusterStats_map [of n c w cc]
  by (auto simp add: syncCluster_def notifyChange_def
      split: prod.splits option.splits sum.splits if_splits)

lemma syncClusters_fields:
  "knownClusterSet (snd (syncClusters w cc cs)) = knownClusterSet cc \<and>
   OnClusterChange (snd (syncClusters w cc cs)) = OnClusterChange cc \<and>
   deletedNames (events (snd (syncClusters w cc cs))) = deletedNames (events cc) \<and>
   addedNames (events (snd (syncClusters w cc cs))) = addedNames (events cc)"
proof (induction cs arbitrary: cc)
  case Nil
  then show ?case by simp
next
  case (Cons c cs)
  obtain p cc1 where sc: "syncCluster w cc c = (p, cc1)"
    by (cases "syncCluster w cc c")
  have f: "knownClusterSet cc1 = knownClusterSet cc" "OnClusterChange cc1 = OnClusterChange cc"
    using syncCluster_fields [of w cc c] sc by simp_all
  have e: "deletedNames (events cc1) = deletedNames (events cc) \<and>
           addedNames (events cc1) = addedNames (events cc)"
    using syncCluster_events [of w cc c] sc
    by (auto simp add: deletedNames_append addedNames_append)
  show ?case
  proof (cases p)
    case None
    then show ?thesis
      using Cons.IH [of cc1] sc f e by simp
  next
    case (Some a)
    then show ?thesis
      using sc f e by simp
  qed
qed

lemma syncClusters_map:
  "n \<notin> set (map Name cs) \<Longrightarrow>
   clusterKubeClientMap (snd (syncClusters w cc cs)) n = clusterKubeClientMap cc n"
proof (induction cs arbitrary: cc)
  case Nil
  then show ?case by simp
next
  case (Cons c cs)
  obtain p cc1 where sc: "syncCluster w cc c = (p, cc1)"
    by (cases "syncCluster w cc c")
  have m: "clusterKubeClientMap cc1 n = clusterKubeClientMap cc n"
    using syncCluster_map [of n c w cc] sc Cons.prems by simp
  show ?case
  proof (cases p)
    case None
    then show ?thesis
      using Cons.IH [of cc1] Cons.prems sc m by simp
  next
    case (Some a)
    then show ?thesis
      using sc m by simp
  qed
qed

lemma addListed_Cons:
  "addListed w cc (c # cs) =
     addListed w (if \<not> setHas (knownClusterSet cc) (Name c) then addToClusterSet w cc c else cc) cs"
  by (simp add: addListed_def)

lemma addListed_Nil: "addListed w cc [] = cc"
  by (simp add: addListed_def)

lemma addListed_fields:
  assumes "distinct (map Name items)"
  shows "knownClusterSet (addListed w cc items) =
           knownClusterSet cc @ filter (\<lambda>n. n \<notin> set (knownClusterSet cc)) (map Name items) \<and>
         events (addListed w cc items) =
           events cc @
           map ClusterAdded (filter (\<lambda>n. n \<notin> set (knownClusterSet cc)) (map Name items)) \<and>
         OnClusterChange (addListed w cc items) = OnClusterChange cc"
  using assms
proof (induction items arbitrary: cc)
  case Nil
  then show ?case by (simp add: addListed_Nil)
next
  case (Cons c cs)
  let ?cc1 = "if \<not> setHas (knownClusterSet cc) (Name c) then addToClusterSet w cc c else cc"
  have d: "distinct (map Name cs)" and notin: "Name c \<notin> set (map Name cs)"
    using Cons.prems by simp_all
  have k1: "set (knownClusterSet ?cc1) = insert (Name c) (set (knownClusterSet cc))"
    by (auto simp add: addToClusterSet_fields setInsert_def setHas_def)
  have same: "filter (\<lambda>n. n \<notin> set (knownClusterSet ?cc1)) (map Name cs) =
              filter (\<lambda>n. n \<notin> set (knownClusterSet cc)) (map Name cs)"
  proof (rule filter_cong [OF refl])
    fix n
    assume "n \<in> set (map Name cs)"
    then have "n \<noteq> Name c"
      using notin by blast
    then show "(n \<notin> set (knownClusterSet ?cc1)) = (n \<notin> set (knownClusterSet cc))"
      by (simp add: k1)
  qed
  show ?case
  proof (cases "setHas (knownClusterSet cc) (Name c)")
    case True
    then show ?thesis
      using Cons.IH [OF d, of cc] by (simp add: addListed_Cons setHas_def)
  next
    case False
    then have n: "Name c \<notin> set (knownClusterSet cc)"
      by (simp add: setHas_def)
    have "?cc1 = addToClusterSet w cc c"
      using False by simp
    then show ?thesis
      using Cons.IH [OF d, of "addToClusterSet w cc c"] same n False
      by (simp add: addListed_Cons addToClusterSet_fields setInsert_def)
  qed
qed

lemma addListed_map:
  "n \<notin> set (map Name items) \<Longrightarrow>
   clusterKubeClientMap (addListed w cc items) n = clusterKubeClientMap cc n"
proof (induction items arbitrary: cc)
  case Nil
  then show ?case by (simp add: addListed_Nil)
next
  case (Cons c cs)
  then show ?case
    by (simp add: addListed_Cons addToClusterSet_map)
qed

lemma observed_set:
  "set (fold (\<lambda>cluster obs. setInsert obs (Name cluster)) items acc) =
   set acc \<union> set (map Name items)"
  by (induction items arbitrary: acc) (auto simp add: setInsert_def)

lemma fold_del_fields:
  "knownClusterSet (fold (\<lambda>n c. delFromClusterSetByName c n) ds cc) =
     filter (\<lambda>n. n \<notin> set ds) (knownClusterSet cc) \<and>
   OnClusterChange (fold (\<lambda>n c. delFromClusterSetByName c n) ds cc) = OnClusterChange cc \<and>
   deletedNames (events (fold (\<lambda>n c. delFromClusterSetByName c n) ds cc)) =
     deletedNames (events cc) @ ds \<and>
   addedNames (events (fold (\<lambda>n c. delFromClusterSetByName c n) ds cc)) =
     addedNames (events cc) \<and>
   (\<forall>n \<in> set ds. clusterKubeClientMap (fold (\<lambda>n c. delFromClusterSetByName c n) ds cc) n = None) \<and>
   (\<forall>n. n \<notin> set ds \<longrightarrow>
      clusterKubeClientMap (fold (\<lambda>n c. delFromClusterSetByName c n) ds cc) n =
      clusterKubeClientMap cc n)"
proof (induction ds arbitrary: cc)
  case Nil
  then show ?case by simp
next
  case (Cons d ds)
  have k: "filter (\<lambda>n. n \<notin> set ds) (removeAll d (knownClusterSet cc)) =
           filter (\<lambda>n. n \<notin> set (d # ds)) (knownClusterSet cc)"
    by (auto simp add: removeAll_filter_not_eq intro!: filter_cong)
  show ?case
    using Cons.IH [of "delFromClusterSetByName cc d"] k
    by (auto simp add: delFromClusterSetByName_fields deletedNames_append addedNames_append)
qed

lemma names_of_added:
  "deletedNames (map ClusterAdded xs) = []"
  "addedNames (map ClusterAdded xs) = xs"
  by (induction xs) simp_all

lemma UpdateClusterStatus_snd:
  "listClusters w = Inr items \<Longrightarrow>
   snd (UpdateClusterStatus w cc) =
     snd (syncClusters w (reconcileDeleted (addListed w cc items) items) items)"
  by (simp add: UpdateClusterStatus_def split: prod.splits option.splits)

lemma reconcileDeleted_fields:
  assumes d: "distinct (map Name items)"
    and sub: "set (map Name items) \<subseteq> set (knownClusterSet cc)"
  shows "set (knownClusterSet (reconcileDeleted cc items)) = set (map Name items) \<and>
         OnClusterChange (reconcileDeleted cc items) = OnClusterChange cc \<and>
         deletedNames (events (reconcileDeleted cc items)) =
           deletedNames (events cc) @
           remdups (filter (\<lambda>n. n \<notin> set (map Name items)) (knownClusterSet cc)) \<and>
         addedNames (events (reconcileDeleted cc items)) = addedNames (events cc) \<and>
         (\<forall>n \<in> set (knownClusterSet cc). n \<notin> set (map Name items) \<longrightarrow>
            clusterKubeClientMap (reconcileDeleted cc items) n = None)"
proof -
  let ?names = "map Name items"
  let ?K = "knownClusterSet cc"
  let ?obs = "fold (\<lambda>cluster obs. setInsert obs (Name cluster)) items []"
  let ?D = "setDifference ?K ?obs"
  have obs: "set ?obs = set ?names"
    using observed_set [of items "[]"] by simp
  have D: "?D = remdups (filter (\<lambda>n. n \<notin> set ?names) ?K)"
    by (simp add: setDifference_def obs)
  show ?thesis
  proof (cases "setLen ?K = length items")
    case True
    have "card (set ?names) = length items"
      using distinct_card [OF d] by simp
    moreover have "card (set ?K) = length items"
      using True by (simp add: setLen_def length_remdups_card_conv)
    ultimately have "card (set ?K) = card (set ?names)"
      by simp
    then have "set ?names = set ?K"
      using sub by (intro card_subset_eq) simp_all
    then have "filter (\<lambda>n. n \<notin> set ?names) ?K = []"
      by (simp add: filter_empty_conv)
    then show ?thesis
      using True \<open>set ?names = set ?K\<close> by (simp add: reconcileDeleted_def)
  next
    case False
    then have r: "reconcileDeleted cc items = fold (\<lambda>n c. delFromClusterSetByName c n) ?D cc"
      by (simp add: reconcileDeleted_def Let_def)
    have "set (filter (\<lambda>n. n \<notin> set ?D) ?K) = set ?names"
      using sub by (auto simp add: D)
    then show ?thesis
      using fold_del_fields [of ?D cc] by (simp add: r) (simp add: D)
  qed
qed

lemma exampleSynced_stats:
  "n = ''A'' \<or> n = ''C'' \<Longrightarrow>
   getClusterStats exampleWorldGetError exampleSynced (exampleCluster n cs) =
     (exampleSynced, (exampleIdleStats, None))"
  by (auto simp add: getClusterStats_query GetClusterClient_def exampleSynced_def
      exampleCluster_def exampleClient_stats)

lemma exampleCluster_ready: "isClusterReady (exampleCluster n [readyCondition])"
  by (simp add: isClusterReady_def exampleCluster_def readyCondition_def)

lemma syncCluster_A_panics:
  "syncCluster exampleWorldGetError exampleSynced (exampleCluster ''A'' [readyCondition]) =
     (Some NilDereference, exampleSynced)"
  by (simp add: syncCluster_def exampleCluster_ready exampleSynced_stats)
     (simp add: exampleCluster_def exampleWorldGetError_def)

lemma decideAnnotations_panic:
  "decideAnnotations clk cfg st a = Inl p \<Longrightarrow> p = DivideByZero"
  by (auto simp add: decideAnnotations_def markClusterForScalingIfPodsHitThresholds_def Let_def
      split: if_splits prod.splits option.splits)

lemma list_failure_aborts:
  "listClusters w = Inl e \<Longrightarrow> UpdateClusterStatus w cc = (ListFailed e, cc)"
  by (simp add: UpdateClusterStatus_def)

lemma syncCluster_panic_causes:
  assumes "fst (syncCluster w cc c) = Some p"
    and "fst (getCluster w (Name c)) \<noteq> None"
    and "\<And>x. fst (persistCluster w x) \<noteq> None"
  shows "p = DivideByZero"
proof -
  have "persistCluster w x \<noteq> (None, e)" for x e
    using assms(3) [of x] by auto
  then show ?thesis
    using assms(1,2)
    by (auto simp add: syncCluster_def split: if_splits prod.splits option.splits sum.splits
        dest: decideAnnotations_panic)
qed

section \<open>Threshold-based scaling\<close>



section \<open>The order of the rules within one pass\<close>

text \<open>
  C1 (as amended). Within one pass the rules are tried in the order capacity refresh,
  idle marking, expiry of the time to live, threshold scaling, and the pass stops at the
  first rule that reports a change: when a capacity annotation is missing, or a stored
  value differs from the snapshot, the four capacity annotations are written and no
  later rule is evaluated; a later rule is evaluated only when every earlier one left the
  annotations as they were, and it reads those unchanged annotations.
\<close>

theorem decideAnnotations_first_change_wins:
  "decideAnnotations clk cfg st a =
     (if \<not> IsCapacityDataPresent a then Inr (updateClusterStats a st, True)
      else if isStatsChanged st a then Inr (updateClusterStats a st, True)
      else if idleMarkFires a then Inr (markClusterToShutDownIfNoPods clk a)
      else if ttlExpired clk cfg a then Inr (shutDownClusterIfTTLExpired clk cfg a)
      else markClusterForScalingIfPodsHitThresholds cfg a)"
  by (simp add: decide_absent decide_refresh decide_mark decide_ttl decide_scale)

theorem decideAnnotations_first_change_wins_witness:
  "decideAnnotations exampleClock exampleDefaults exampleIdleStats exampleFresh =
     Inr (updateClusterStats exampleFresh exampleIdleStats, True) \<and>
   decideAnnotations exampleClock exampleDefaults exampleIdleStats exampleFreshWritten =
     Inr (markClusterToShutDownIfNoPods exampleClock exampleFreshWritten)"
  using decideAnnotations_first_change_wins
      [of exampleClock exampleDefaults exampleIdleStats exampleFresh]
    decideAnnotations_first_change_wins
      [of exampleClock exampleDefaults exampleIdleStats exampleFreshWritten]
  by (simp add: exampleFresh_absent exampleFreshWritten_reads)

text \<open>
  The claim as stated fails on the fresh cluster: the pass writes the four capacity
  annotations and stops, although the idle rule, run on the annotations just written,
  would stamp the shutdown start time.
\<close>

theorem rules_not_all_evaluated_counterexample:
  "decideAnnotations exampleClock exampleDefaults exampleIdleStats exampleFresh =
     Inr (exampleFreshWritten, True) \<and>
   exampleFreshWritten NavarkosClusterShutdownStartTimeKey = None \<and>
   markClusterToShutDownIfNoPods exampleClock exampleFreshWritten =
     (exampleFreshWritten(NavarkosClusterShutdownStartTimeKey \<mapsto> nowUnixDate exampleClock), True)"
proof -
  have "markClusterToShutDownIfNoPods exampleClock exampleFreshWritten =
     (exampleFreshWritten(NavarkosClusterShutdownStartTimeKey \<mapsto> nowUnixDate exampleClock), True)"
    using exampleFreshWritten_reads(3,4)
    by (auto simp add: markClusterToShutDownIfNoPods_def idleMarkFires_def Let_def split: if_splits)
  then show ?thesis
    by (simp add: decide_absent exampleFresh_absent exampleFreshWritten_def exampleFreshWritten_reads(4) [unfolded exampleFreshWritten_def])
qed

section \<open>Running the decision block twice\<close>

text \<open>
  C2 (as amended). With the same snapshot and the same clock, a second run reports no
  change when the first run reported none, or when the change of the first run was made
  by the expiry rule or by the threshold rule, that is when the capacity annotations
  were present and current and the idle rule had nothing to do.
\<close>

theorem decideAnnotations_second_run:
  assumes st: "capacityStats st"
    and pres: "IsCapacityDataPresent a" and same: "\<not> isStatsChanged st a"
    and idle: "\<not> idleMarkFires a"
    and run: "decideAnnotations clk cfg st a = Inr (a', c)"
  shows "decideAnnotations clk cfg st a' = Inr (a', False)"
proof (cases "ttlExpired clk cfg a")
  case True
  then have "a' = (a(NavarkosClusterStateKey \<mapsto> NavarkosClusterStatePendingShutdown))
              (NavarkosClusterShutdownStartTimeKey := None)"
    using run decide_ttl [OF pres same idle True] by (simp add: ttl_eq)
  then show ?thesis
    using settled_after_expiry [OF st pres same] by simp
next
  case False
  then have sc: "markClusterForScalingIfPodsHitThresholds cfg a = Inr (a', c)"
    using run decide_scale [OF pres same idle False] by simp
  show ?thesis
  proof (cases c)
    case True
    then have r: "annotationOrEmpty a NavarkosClusterStateKey = NavarkosClusterStateReady"
      and "a' = a(NavarkosClusterStateKey \<mapsto> NavarkosClusterStatePendingScaleUp) \<or>
           a' = a(NavarkosClusterStateKey \<mapsto> NavarkosClusterStatePendingScaleDown)"
      using scale_changed [of cfg a a'] sc by simp_all
    then show ?thesis
      using settled_after_state_change [OF st pres same idle r False] state_value_neq
      by auto
  next
    case False
    then have "a' = a"
      using scale_unchanged [of cfg a a'] sc by simp
    then show ?thesis
      using run sc False by simp
  qed
qed

theorem decideAnnotations_second_run_witness:
  "capacityStats exampleBusyStats \<and>
   decideAnnotations exampleClock exampleDefaults exampleBusyStats exampleScaleUp =
     Inr (exampleScaleUp(NavarkosClusterStateKey \<mapsto> NavarkosClusterStatePendingScaleUp), True) \<and>
   decideAnnotations exampleClock exampleDefaults exampleBusyStats
       (exampleScaleUp(NavarkosClusterStateKey \<mapsto> NavarkosClusterStatePendingScaleUp)) =
     Inr (exampleScaleUp(NavarkosClusterStateKey \<mapsto> NavarkosClusterStatePendingScaleUp), False)"
proof -
  have st: "capacityStats exampleBusyStats"
    by (simp add: capacityStats_def exampleBusyStats_def capacityKeys_def)
  have pres: "IsCapacityDataPresent exampleScaleUp"
    by (simp add: IsCapacityDataPresent_def exampleScaleUp_def key_defs)
  have same: "\<not> isStatsChanged exampleBusyStats exampleScaleUp"
    by (simp add: isStatsChanged_def exampleBusyStats_def exampleScaleUp_def
        getAnnotationIntegerValue_def key_defs atoi_defs)
  have idle: "\<not> idleMarkFires exampleScaleUp"
    by (simp add: idleMarkFires_def exampleScaleUp_reads) (simp add: exampleScaleUp_def key_defs)
  have ttl: "\<not> ttlExpired exampleClock exampleDefaults exampleScaleUp"
    by (simp add: ttlExpired_def exampleScaleUp_def key_defs)
  have pct: "usedOverCapacityPct exampleScaleUp = 90"
    by (simp add: usedOverCapacityPct_def exampleScaleUp_reads go_div_examples)
  have "markClusterForScalingIfPodsHitThresholds exampleDefaults exampleScaleUp =
     Inr (exampleScaleUp(NavarkosClusterStateKey \<mapsto> NavarkosClusterStatePendingScaleUp), True)"
    using scale_eq [of exampleScaleUp exampleDefaults]
    by (simp add: exampleScaleUp_reads pct)
  then have run: "decideAnnotations exampleClock exampleDefaults exampleBusyStats exampleScaleUp =
     Inr (exampleScaleUp(NavarkosClusterStateKey \<mapsto> NavarkosClusterStatePendingScaleUp), True)"
    using decide_scale [OF pres same idle ttl] by simp
  show ?thesis
    using st run decideAnnotations_second_run [OF st pres same idle run] by simp
qed

text \<open>
  The claim as stated fails on the fresh cluster: the first run writes the capacity
  annotations, and the second run, on the result and with the same snapshot and clock,
  stamps the shutdown start time and reports a change again.
\<close>

theorem second_run_changes_counterexample:
  "decideAnnotations exampleClock exampleDefaults exampleIdleStats exampleFresh =
     Inr (exampleFreshWritten, True) \<and>
   decideAnnotations exampleClock exampleDefaults exampleIdleStats exampleFreshWritten =
     Inr (exampleFreshWritten(NavarkosClusterShutdownStartTimeKey \<mapsto> nowUnixDate exampleClock), True)"
proof -
  have "markClusterToShutDownIfNoPods exampleClock exampleFreshWritten =
     (exampleFreshWritten(NavarkosClusterShutdownStartTimeKey \<mapsto> nowUnixDate exampleClock), True)"
    using exampleFreshWritten_reads(3,4)
    by (auto simp add: markClusterToShutDownIfNoPods_def idleMarkFires_def Let_def split: if_splits)
  then show ?thesis
    by (simp add: decide_absent decide_mark exampleFresh_absent exampleFreshWritten_reads)
       (simp add: exampleFreshWritten_def)
qed

section \<open>Expiry of the time to live\<close>

text \<open>
  C9. When the shutdown start time exists and parses, the time to live (the annotation,
  else the configured default) is positive and at least that many seconds have passed,
  the rule sets the lifecycle state to PendingShutdown, removes the shutdown start time
  and reports a change. In every other case it changes nothing.
\<close>

theorem shutDownClusterIfTTLExpired_expiry:
  "(ttlExpired clk cfg anns \<longrightarrow>
      shutDownClusterIfTTLExpired clk cfg anns =
        ((anns(NavarkosClusterStateKey \<mapsto> NavarkosClusterStatePendingShutdown))
           (NavarkosClusterShutdownStartTimeKey := None), True)) \<and>
   (\<not> ttlExpired clk cfg anns \<longrightarrow> shutDownClusterIfTTLExpired clk cfg anns = (anns, False))"
  by (simp add: ttl_eq)

text \<open>
  The example of the specification: a timer started one hour ago with a time to live of
  1800 seconds expires; with 7200 seconds it does not.
\<close>

theorem shutDownClusterIfTTLExpired_expiry_witness:
  "ttlExpired exampleClock exampleDefaults exampleExpired \<and>
   shutDownClusterIfTTLExpired exampleClock exampleDefaults exampleExpired =
     ((exampleExpired(NavarkosClusterStateKey \<mapsto> NavarkosClusterStatePendingShutdown))
        (NavarkosClusterShutdownStartTimeKey := None), True) \<and>
   \<not> ttlExpired exampleClock exampleDefaults exampleFull \<and>
   shutDownClusterIfTTLExpired exampleClock exampleDefaults exampleFull = (exampleFull, False)"
proof -
  have a: "ttlExpired exampleClock exampleDefaults exampleExpired"
    by (simp add: ttlExpired_def timeToLive_def exampleExpired_def exampleClock_def
        getAnnotationIntegerValue_def key_defs atoi_defs word_sless_alt word_sle_eq)
  have b: "\<not> ttlExpired exampleClock exampleDefaults exampleFull"
    by (simp add: ttlExpired_def timeToLive_def exampleFull_def exampleClock_def
        getAnnotationIntegerValue_def key_defs atoi_defs word_sless_alt word_sle_eq)
  show ?thesis
    using a b
      shutDownClusterIfTTLExpired_expiry [of exampleClock exampleDefaults exampleExpired]
      shutDownClusterIfTTLExpired_expiry [of exampleClock exampleDefaults exampleFull]
    by simp
qed

section \<open>A user capacity of zero\<close>

text \<open>
  C3. The claim asks for a fallback when capacityPods equals usedSystemPods. The source
  has none: on the cluster below (autoscaling on, Ready, ten pods of capacity, all taken
  by system pods, idle timer running and not expired) the threshold rule divides by
  zero, and so does the decision block of the pass that reaches it.
\<close>

theorem zero_user_capacity_panics:
  "markClusterForScalingIfPodsHitThresholds exampleDefaults exampleFull = Inl DivideByZero \<and>
   decideAnnotations exampleClock exampleDefaults exampleFullStats exampleFull =
     Inl DivideByZero"
proof -
  have reads:
    "autoScaleEnabled exampleFull"
    "annotationOrEmpty exampleFull NavarkosClusterStateKey = NavarkosClusterStateReady"
    "getAnnotationIntegerValue exampleFull NavarkosClusterCapacityPodsKey 0 = 10"
    "getAnnotationIntegerValue exampleFull NavarkosClusterCapacitySystemPodsKey 0 = 10"
    "getAnnotationIntegerValue exampleFull NavarkosClusterCapacityUsedPodsKey 0 = 10"
    "getAnnotationIntegerValue exampleFull NavarkosClusterCapacityAllocatablePodsKey 0 = 10"
    "exampleFull NavarkosClusterShutdownStartTimeKey \<noteq> None"
    by (simp_all add: exampleFull_def autoScaleEnabled_def annotationOrEmpty_def
        getAnnotationIntegerValue_def ParseBool_def key_defs atoi_defs)
  have sc: "markClusterForScalingIfPodsHitThresholds exampleDefaults exampleFull =
      Inl DivideByZero"
    by (rule scale_zero_capacity) (simp_all add: reads)
  have pres: "IsCapacityDataPresent exampleFull"
    by (simp add: IsCapacityDataPresent_def exampleFull_def key_defs)
  have same: "\<not> isStatsChanged exampleFullStats exampleFull"
    by (simp add: isStatsChanged_def exampleFullStats_def reads)
  have idle: "\<not> idleMarkFires exampleFull"
    by (simp add: idleMarkFires_def reads)
  have ttl: "\<not> ttlExpired exampleClock exampleDefaults exampleFull"
    by (simp add: ttlExpired_def timeToLive_def exampleFull_def exampleClock_def
        getAnnotationIntegerValue_def key_defs atoi_defs word_sless_alt word_sle_eq)
  show ?thesis
    using sc decide_scale [OF pres same idle ttl] by simp
qed

section \<open>Ready and unready clusters\<close>

text \<open>
  C10. When the store lists its clusters, GetReadyClusters returns the listed clusters
  that have a condition of type ClusterReady with status true, GetUnreadyClusters the
  others, each in the order of the list; together the two results hold every listed
  cluster exactly once. The results are copies equal to the stored clusters, and the
  store is not an output of either function.
\<close>

theorem GetReadyClusters_partition:
  assumes "storeList w = Inr items"
  shows "GetReadyClusters w = Inr (filter hasReadyCondition items) \<and>
         GetUnreadyClusters w = Inr (filter (\<lambda>c. \<not> hasReadyCondition c) items) \<and>
         mset (filter hasReadyCondition items) +
           mset (filter (\<lambda>c. \<not> hasReadyCondition c) items) = mset items"
  using assms
  by (simp add: GetReadyClusters_def GetUnreadyClusters_def fold_append_filter
      isClusterReady_iff)

theorem GetReadyClusters_partition_witness:
  "GetReadyClusters exampleWorld = Inr [exampleCluster ''A'' [readyCondition]] \<and>
   GetUnreadyClusters exampleWorld = Inr [exampleCluster ''B'' []]"
proof -
  have s: "storeList exampleWorld =
      Inr [exampleCluster ''A'' [readyCondition], exampleCluster ''B'' []]"
    by (simp add: exampleWorld_def)
  have "hasReadyCondition (exampleCluster ''A'' [readyCondition])"
    and "\<not> hasReadyCondition (exampleCluster ''B'' [])"
    by (simp_all add: hasReadyCondition_def exampleCluster_def readyCondition_def)
  then show ?thesis
    using GetReadyClusters_partition [OF s] by simp
qed

section \<open>Collecting the statistics of a cluster\<close>

text \<open>
  C5 (as amended). Collecting a snapshot looks the client up under the cluster's name
  and, when none is cached, has the factory construct one, which it caches on success;
  it fails without a snapshot only when the factory yields no client or an error, or
  when a query fails. The collector does not look at the readiness of the cluster: that
  is tested by the pass before it calls the collector.
\<close>

theorem getClusterStats_lazy_client:
  "(clusterKubeClientMap cc (Name cluster) = Some client \<longrightarrow>
      getClusterStats w cc cluster = (cc, queryStats client)) \<and>
   (clusterKubeClientMap cc (Name cluster) = None \<and>
    NewClusterClientSet w cluster = (Some client, None) \<longrightarrow>
      getClusterStats w cc cluster =
        (cc\<lparr>clusterKubeClientMap := (clusterKubeClientMap cc)(Name cluster \<mapsto> client)\<rparr>,
         queryStats client)) \<and>
   (clusterKubeClientMap cc (Name cluster) = None \<and>
    NewClusterClientSet w cluster = (made, err) \<and> (made = None \<or> err \<noteq> None) \<longrightarrow>
      getClusterStats w cc cluster = (cc, ([], err))) \<and>
   (clusterKubeClientMap cc (Name cluster) \<noteq> None \<longrightarrow>
      getClusterStats w cc (cluster\<lparr>Conditions := cs\<rparr>) = getClusterStats w cc cluster)"
  by (auto simp add: getClusterStats_query GetClusterClient_def updateClusterClient_def
      split: option.splits)

theorem getClusterStats_lazy_client_witness:
  "getClusterStats exampleWorld
     (exampleController\<lparr>clusterKubeClientMap := [''A'' \<mapsto> exampleClient]\<rparr>)
     (exampleCluster ''A'' [readyCondition]) =
   (exampleController\<lparr>clusterKubeClientMap := [''A'' \<mapsto> exampleClient]\<rparr>,
    (exampleIdleStats, None))"
  using getClusterStats_lazy_client
    [of "exampleController\<lparr>clusterKubeClientMap := [''A'' \<mapsto> exampleClient]\<rparr>"
        "exampleCluster ''A'' [readyCondition]" exampleClient exampleWorld]
  by (simp add: exampleCluster_def exampleClient_stats)

text \<open>
  The claim as stated fails for a cluster that is not ready and has no cached client:
  the collector constructs and caches a client and returns a snapshot, where the claim
  expects one of the two errors.
\<close>

theorem getClusterStats_creates_client_counterexample:
  "clusterKubeClientMap exampleController ''A'' = None \<and>
   \<not> isClusterReady (exampleCluster ''A'' []) \<and>
   getClusterStats exampleWorld exampleController (exampleCluster ''A'' []) =
     (exampleController\<lparr>clusterKubeClientMap := [''A'' \<mapsto> exampleClient]\<rparr>,
      (exampleIdleStats, None))"
  by (simp add: getClusterStats_query GetClusterClient_def updateClusterClient_def
      exampleController_def exampleWorld_def exampleCluster_def isClusterReady_def
      exampleClient_stats)

section \<open>The known set after a pass\<close>

text \<open>
  C4. After a pass whose list call succeeded (cluster names are unique in a list), the
  known set is the set of the listed names, whether or not the last loop of the pass
  ended in a panic. The add handler is called once for each listed name that was not
  known, in list order; the delete handler is called exactly once for each known name
  that is not listed (in an order Go leaves open, hence the multiset), and no client is
  cached for such a name afterwards. For the known
  set A, B, C and a list of A and C there is one call of the delete handler, for B, and
  the known set becomes A, C.
\<close>

theorem UpdateClusterStatus_reconciles_known_set:
  assumes l: "listClusters w = Inr items"
    and d: "distinct (map Name items)"
  shows "set (knownClusterSet (snd (UpdateClusterStatus w cc))) = set (map Name items) \<and>
         addedNames (events (snd (UpdateClusterStatus w cc))) =
           addedNames (events cc) @
           filter (\<lambda>n. n \<notin> set (knownClusterSet cc)) (map Name items) \<and>
         mset (deletedNames (events (snd (UpdateClusterStatus w cc)))) =
           mset (deletedNames (events cc)) +
           mset (remdups (filter (\<lambda>n. n \<notin> set (map Name items)) (knownClusterSet cc))) \<and>
         (\<forall>n \<in> set (knownClusterSet cc). n \<notin> set (map Name items) \<longrightarrow>
            clusterKubeClientMap (snd (UpdateClusterStatus w cc)) n = None)"
proof -
  let ?names = "map Name items"
  let ?K = "knownClusterSet cc"
  let ?cc1 = "addListed w cc items"
  let ?cc2 = "reconcileDeleted ?cc1 items"
  let ?cc3 = "snd (syncClusters w ?cc2 items)"
  have a: "knownClusterSet ?cc1 = ?K @ filter (\<lambda>n. n \<notin> set ?K) ?names"
    and ae: "events ?cc1 = events cc @ map ClusterAdded (filter (\<lambda>n. n \<notin> set ?K) ?names)"
    using addListed_fields [OF d, of w cc] by simp_all
  have sub: "set ?names \<subseteq> set (knownClusterSet ?cc1)"
    by (auto simp add: a)
  have f: "filter (\<lambda>n. n \<notin> set ?names) (knownClusterSet ?cc1) =
           filter (\<lambda>n. n \<notin> set ?names) ?K"
    by (simp add: a filter_empty_conv)
  note r = reconcileDeleted_fields [OF d sub]
  note s = syncClusters_fields [of w ?cc2 items]
  have k: "set (knownClusterSet ?cc3) = set ?names"
    using r s by simp
  have ad: "addedNames (events ?cc3) = addedNames (events cc) @ filter (\<lambda>n. n \<notin> set ?K) ?names"
    using r s by (simp add: ae addedNames_append names_of_added)
  have "deletedNames (events ?cc3) =
      deletedNames (events ?cc1) @
      remdups (filter (\<lambda>n. n \<notin> set ?names) (knownClusterSet ?cc1))"
    using r s by simp
  then have "deletedNames (events ?cc3) =
      deletedNames (events cc) @ remdups (filter (\<lambda>n. n \<notin> set ?names) ?K)"
    unfolding f by (simp add: ae deletedNames_append names_of_added)
  then have de: "mset (deletedNames (events ?cc3)) =
      mset (deletedNames (events cc)) +
      mset (remdups (filter (\<lambda>n. n \<notin> set ?names) ?K))"
    by simp
  have m: "clusterKubeClientMap ?cc3 n = None" if "n \<in> set ?K" "n \<notin> set ?names" for n
  proof -
    have "n \<in> set (knownClusterSet ?cc1)"
      using that by (simp add: a)
    then have "clusterKubeClientMap ?cc2 n = None"
      using r that by blast
    then show ?thesis
      using syncClusters_map [of n items w ?cc2] that by simp
  qed
  show ?thesis
    using k ad de m by (simp add: UpdateClusterStatus_snd [OF l])
qed

theorem UpdateClusterStatus_reconciles_known_set_witness:
  "set (knownClusterSet (snd (UpdateClusterStatus exampleWorld exampleKnownABC))) =
     {''A'', ''C''} \<and>
   mset (deletedNames (events (snd (UpdateClusterStatus exampleWorld exampleKnownABC)))) =
     {#''B''#} \<and>
   addedNames (events (snd (UpdateClusterStatus exampleWorld exampleKnownABC))) = [] \<and>
   clusterKubeClientMap (snd (UpdateClusterStatus exampleWorld exampleKnownABC)) ''B'' = None"
proof -
  have l: "listClusters exampleWorld = Inr [exampleCluster ''A'' [], exampleCluster ''C'' []]"
    by (simp add: exampleWorld_def)
  have d: "distinct (map Name [exampleCluster ''A'' [], exampleCluster ''C'' []])"
    by (simp add: exampleCluster_def)
  show ?thesis
    using UpdateClusterStatus_reconciles_known_set [OF l d, of exampleKnownABC]
    by (simp add: exampleKnownABC_def exampleCluster_def)
qed

section \<open>Change notification\<close>

text \<open>
  C6 (as amended). With a callback registered, every call of the delete handler invokes
  it once, after the removal, and every successful persistence of annotations in a pass
  is followed by one invocation; a round of the pass does nothing else to the outside.
  The add handler records the cluster and does not invoke the callback.
\<close>

theorem change_notification_calls:
  "(OnClusterChange cc \<longrightarrow>
      events (delFromClusterSetByName cc n) = events cc @ [ClusterDeleted n, ChangeNotified]) \<and>
   (OnClusterChange cc \<longrightarrow>
      events (snd (syncCluster w cc c)) = events cc \<or>
      (\<exists>u. events (snd (syncCluster w cc c)) =
         events cc @ [ClusterPersisted u, ChangeNotified])) \<and>
   events (addToClusterSet w cc c) = events cc @ [ClusterAdded (Name c)]"
  using syncCluster_events [of w cc c]
  by (auto simp add: delFromClusterSetByName_fields addToClusterSet_fields)

theorem change_notification_calls_witness:
  "events (delFromClusterSetByName exampleKnownABC ''B'') =
     [ClusterDeleted ''B'', ChangeNotified] \<and>
   events (addToClusterSet exampleWorld exampleKnownABC (exampleCluster ''D'' [])) =
     [ClusterAdded ''D'']"
  using change_notification_calls
    [of exampleKnownABC "''B''" exampleWorld "exampleCluster ''D'' []"]
  by (simp add: exampleKnownABC_def exampleCluster_def)

text \<open>
  The claim as stated fails for the add handler: with a callback registered, adding the
  unknown cluster D does not invoke it.
\<close>

theorem add_without_notification_counterexample:
  "OnClusterChange exampleKnownABC \<and>
   \<not> setHas (knownClusterSet exampleKnownABC) ''D'' \<and>
   notifications
     (addToClusterSet exampleWorld exampleKnownABC (exampleCluster ''D'' [readyCondition])) = 0"
  by (simp add: notifications_def addToClusterSet_fields setHas_def exampleKnownABC_def)

section \<open>A failing cluster within a pass\<close>

text \<open>
  C8. The claim asks that an error of the re-fetch skips that cluster only. On its error
  path the source reads the name through the pointer \<^verbatim>\<open>Get\<close> returned; with a nil pointer
  beside the error the pass panics at cluster A, and cluster C, which is ready and
  listed after A, is not processed: the controller is as before the pass.
\<close>

theorem refetch_error_aborts_pass:
  "UpdateClusterStatus exampleWorldGetError exampleSynced =
     (Panicked NilDereference, exampleSynced)"
proof -
  have a: "addListed exampleWorldGetError exampleSynced
             [exampleCluster ''A'' [readyCondition], exampleCluster ''C'' [readyCondition]] =
           exampleSynced"
    by (simp add: addListed_def setHas_def exampleCluster_def exampleSynced_def)
  have r: "reconcileDeleted exampleSynced
             [exampleCluster ''A'' [readyCondition], exampleCluster ''C'' [readyCondition]] =
           exampleSynced"
    by (simp add: reconcileDeleted_def setLen_def exampleSynced_def)
  have l: "listClusters exampleWorldGetError =
      Inr [exampleCluster ''A'' [readyCondition], exampleCluster ''C'' [readyCondition]]"
    by (simp add: exampleWorldGetError_def)
  show ?thesis
    by (simp add: UpdateClusterStatus_def l a r syncCluster_A_panics)
qed

end
